theory Spec2Isabelle
  imports Complex_Main "HOL-Library.AList"
begin

section \<open>Data model\<close>

text \<open>
  An exercise entry is the dictionary with the keys \<open>exercise\<close>, \<open>sets\<close>, \<open>reps\<close>
  and \<open>weight\<close>; all four values are text, parsed only where a number is needed.
\<close>

record entry =
  exercise :: string
  sets :: string
  reps :: string
  weight :: string

text \<open>
  A workout day is the dictionary with the keys \<open>day\<close> (the label), \<open>exercises\<close> and
  \<open>date\<close>. The key \<open>date\<close> may be absent (the parser of the legacy text format never
  writes it); when present it holds text of the form YYYY-MM-DD.
\<close>

record workout =
  day :: string
  exercises :: "entry list"
  date :: "string option"

text \<open>
  The attribute \<open>current_date\<close> of the planner holds a \<open>datetime.date\<close> object
  (\<open>date.today()\<close>, or the result of \<open>strptime\<close>), here the day's ordinal, until
  \<open>recalculate_prs\<close> stores the text of a day's \<open>date\<close> key in it.
\<close>

datatype pydate = DateObj int | DateStr string

text \<open>
  A personal record: \<open>{'weight': {'value', 'date'}, 'reps': {'value', 'date'}, 'history': [...]}\<close>.
  Python floats are modelled as real numbers (finite values, exact arithmetic).
\<close>

record 'a pr_mark =
  pr_value :: 'a
  pr_date :: "pydate option"

record hist_entry =
  h_date :: pydate
  h_weight :: real
  h_reps :: int

record pr_data =
  weight_pr :: "real pr_mark"
  reps_pr :: "int pr_mark"
  history :: "hist_entry list"

text \<open>
  Python dictionaries keep insertion order, so a dictionary is an association list with
  distinct keys: \<open>map_of\<close> reads it, \<open>AList.update\<close> overwrites a key in place or
  appends a new one.
\<close>

type_synonym prs_dict = "(string \<times> pr_data) list"

text \<open>
  The builtins \<open>int\<close> and \<open>float\<close>, applied to text, are parameters of the model:
  \<open>None\<close> stands for the \<open>ValueError\<close> they raise on text that is not a number.
\<close>

type_synonym int_parser = "string \<Rightarrow> int option"
type_synonym float_parser = "string \<Rightarrow> real option"

text \<open>
  What ends an operation early. \<open>OverflowError\<close>, \<open>KeyError\<close>, \<open>IndexError\<close> and
  \<open>ValueError\<close> are the Python exceptions; \<open>CapacityError\<close> and \<open>MinimumDaysError\<close>
  stand for the two warnings ("Maximum Days Reached", "Cannot Remove Day") after which
  \<open>add_day\<close> and \<open>remove_day\<close> return.
\<close>

datatype error =
  OverflowError | KeyError | IndexError | ValueError | CapacityError | MinimumDaysError

section \<open>Load calculator\<close>

text \<open>
  \<^verbatim>\<open>
  def calculate_load(self, exercise):
      try:
          sets = int(exercise['sets'])
          reps = int(exercise['reps'])
          weight = float(exercise['weight'])
          return sets * reps * weight
      except ValueError:
          return 0
  \<close>
  The product \<open>sets * reps\<close> is an exact integer. Multiplying it with the float
  \<open>weight\<close> first converts it to a float, and that conversion raises
  \<open>OverflowError\<close> ("int too large to convert to float") for an integer whose
  absolute value is at least \<open>2^1024 - 2^970\<close>, the least one that does not round
  to a finite double. The handler catches \<open>ValueError\<close> only, so this error leaves
  the function. Rounding is not modelled: a converted integer and the product of floats
  are the exact real numbers.
\<close>

definition float_of_int :: "int \<Rightarrow> error + real" where
  "float_of_int n =
     (if \<bar>n\<bar> \<ge> 2 ^ 1024 - 2 ^ 970 then Inl OverflowError else Inr (of_int n))"

definition calculate_load :: "int_parser \<Rightarrow> float_parser \<Rightarrow> entry \<Rightarrow> error + real" where
  "calculate_load py_int py_float ex =
     (case py_int (sets ex) of
        None \<Rightarrow> Inr 0
      | Some s \<Rightarrow>
          (case py_int (reps ex) of
             None \<Rightarrow> Inr 0
           | Some r \<Rightarrow>
               (case py_float (weight ex) of
                  None \<Rightarrow> Inr 0
                | Some w \<Rightarrow>
                    (case float_of_int (s * r) of
                       Inl e \<Rightarrow> Inl e
                     | Inr p \<Rightarrow> Inr (p * w)))))"

section \<open>PR tracker\<close>

definition zero_pr :: pr_data where
  "zero_pr = \<lparr>weight_pr = \<lparr>pr_value = 0, pr_date = None\<rparr>,
              reps_pr = \<lparr>pr_value = 0, pr_date = None\<rparr>,
              history = []\<rparr>"

text \<open>
  \<open>initialize_prs\<close>: one zero record for every exercise name of the plan, in the order
  of first occurrence.
\<close>

definition init_exercise :: "prs_dict \<Rightarrow> entry \<Rightarrow> prs_dict" where
  "init_exercise prs ex =
     (if map_of prs (exercise ex) = None then prs @ [(exercise ex, zero_pr)] else prs)"

definition init_day :: "prs_dict \<Rightarrow> workout \<Rightarrow> prs_dict" where
  "init_day prs d = foldl init_exercise prs (exercises d)"

definition init_week :: "prs_dict \<Rightarrow> workout list \<Rightarrow> prs_dict" where
  "init_week prs week = foldl init_day prs week"

definition initialize_prs :: "workout list list \<Rightarrow> prs_dict" where
  "initialize_prs ws = foldl init_week [] ws"

text \<open>
  \<^verbatim>\<open>
  def update_prs(self, exercise):
      exercise_name = exercise['exercise']
      try:
          weight = float(exercise['weight'])
          reps = int(exercise['reps'])
      except ValueError:
          return
      if exercise_name not in self.prs:
          self.prs[exercise_name] = {zero record}
      pr_data = self.prs[exercise_name]
      if weight > pr_data['weight']['value']:
          pr_data['weight'] = {'value': weight, 'date': self.current_date}
      if weight == pr_data['weight']['value'] and reps > pr_data['reps']['value']:
          pr_data['reps'] = {'value': reps, 'date': self.current_date}
      pr_data['history'].append({'date': self.current_date, 'weight': weight, 'reps': reps})
  \<close>
  The function reads \<open>self.current_date\<close> and writes \<open>self.prs\<close>: the date is an
  argument and the dictionary is passed through.
\<close>

definition apply_weight :: "pydate \<Rightarrow> real \<Rightarrow> pr_data \<Rightarrow> pr_data" where
  "apply_weight cd w p =
     (if w > pr_value (weight_pr p)
      then p\<lparr>weight_pr := \<lparr>pr_value = w, pr_date = Some cd\<rparr>\<rparr> else p)"

definition apply_reps :: "pydate \<Rightarrow> real \<Rightarrow> int \<Rightarrow> pr_data \<Rightarrow> pr_data" where
  "apply_reps cd w r p =
     (if w = pr_value (weight_pr p) \<and> r > pr_value (reps_pr p)
      then p\<lparr>reps_pr := \<lparr>pr_value = r, pr_date = Some cd\<rparr>\<rparr> else p)"

definition append_history :: "pydate \<Rightarrow> real \<Rightarrow> int \<Rightarrow> pr_data \<Rightarrow> pr_data" where
  "append_history cd w r p =
     p\<lparr>history := history p @ [\<lparr>h_date = cd, h_weight = w, h_reps = r\<rparr>]\<rparr>"

definition record_pr :: "pydate \<Rightarrow> real \<Rightarrow> int \<Rightarrow> pr_data \<Rightarrow> pr_data" where
  "record_pr cd w r p = append_history cd w r (apply_reps cd w r (apply_weight cd w p))"

definition pr_of :: "prs_dict \<Rightarrow> string \<Rightarrow> pr_data" where
  "pr_of prs name = (case map_of prs name of None \<Rightarrow> zero_pr | Some p \<Rightarrow> p)"

definition update_prs ::
  "int_parser \<Rightarrow> float_parser \<Rightarrow> pydate \<Rightarrow> prs_dict \<Rightarrow> entry \<Rightarrow> prs_dict" where
  "update_prs py_int py_float cd prs ex =
     (case py_float (weight ex) of
        None \<Rightarrow> prs
      | Some w \<Rightarrow>
          (case py_int (reps ex) of
             None \<Rightarrow> prs
           | Some r \<Rightarrow>
               AList.update (exercise ex) (record_pr cd w r (pr_of prs (exercise ex))) prs))"

text \<open>
  \<^verbatim>\<open>
  def recalculate_prs(self):
      self.prs = self.initialize_prs()
      for week in self.workouts:
          for day in week:
              self.current_date = day.get('date', self.current_date)
              for exercise in day['exercises']:
                  self.update_prs(exercise)
  \<close>
  The loops write \<open>self.prs\<close> and \<open>self.current_date\<close>; the pair of both is the loop
  state.
\<close>

type_synonym pr_state = "prs_dict \<times> pydate"

definition replay_day :: "int_parser \<Rightarrow> float_parser \<Rightarrow> pr_state \<Rightarrow> workout \<Rightarrow> pr_state" where
  "replay_day py_int py_float st d =
     (let cd = (case date d of None \<Rightarrow> snd st | Some t \<Rightarrow> DateStr t)
      in (foldl (update_prs py_int py_float cd) (fst st) (exercises d), cd))"

definition replay_week ::
  "int_parser \<Rightarrow> float_parser \<Rightarrow> pr_state \<Rightarrow> workout list \<Rightarrow> pr_state" where
  "replay_week py_int py_float st week = foldl (replay_day py_int py_float) st week"

text \<open>
  The attributes of the planner that the plan structure manager reads and writes, and
  the two more that the PR tracker uses. \<open>current_week\<close> counts from 1 and
  \<open>current_day\<close> from 0.
\<close>

record plan_state =
  workouts :: "workout list list"
  current_week :: int
  current_day :: int

record planner = plan_state +
  current_date :: pydate
  prs :: prs_dict

definition recalculate_prs :: "int_parser \<Rightarrow> float_parser \<Rightarrow> planner \<Rightarrow> planner" where
  "recalculate_prs py_int py_float s =
     (let st = foldl (replay_week py_int py_float)
                 (initialize_prs (workouts s), current_date s) (workouts s)
      in s\<lparr>prs := fst st, current_date := snd st\<rparr>)"

section \<open>Fatigue and recovery engine\<close>

text \<open>
  The muscle state \<open>{'fatigue': f, 'last_workout': d}\<close>; the date of the last workout
  is a \<open>datetime.date\<close> object, here the day's ordinal, or \<open>None\<close>.
\<close>

record muscle_state =
  fatigue :: real
  last_workout :: "int option"

type_synonym recovery_dict = "(string \<times> muscle_state) list"

definition recovery_rates :: "(string \<times> int) list" where
  "recovery_rates =
     [(''chest'', 15), (''shoulders'', 15), (''biceps'', 20), (''triceps'', 20),
      (''abs'', 25), (''obliques'', 25), (''quads'', 15), (''calves'', 25),
      (''trapezius'', 20), (''back'', 15), (''lats'', 15), (''glutes'', 15),
      (''hamstrings'', 15), (''forearms'', 25), (''rear delts'', 20)]"

definition fatigue_threshold :: real where
  "fatigue_threshold = 100"

definition fatigue_multiplier :: real where
  "fatigue_multiplier = 0.1"

definition initialize_muscle_recovery :: recovery_dict where
  "initialize_muscle_recovery =
     map (\<lambda>kv. (fst kv, \<lparr>fatigue = 0, last_workout = None\<rparr>)) recovery_rates"

definition engagement_map :: "(string \<times> (string \<times> real) list) list" where
  "engagement_map =
    [ (''bench press'', [(''chest'', 0.8), (''triceps'', 0.2), (''shoulders'', 0.2)]),
      (''incline db press'', [(''chest'', 0.7), (''shoulders'', 0.3), (''triceps'', 0.2)]),
      (''db bench press'', [(''chest'', 0.8), (''triceps'', 0.2), (''shoulders'', 0.2)]),
      (''decline bench press'', [(''chest'', 0.8), (''triceps'', 0.2), (''shoulders'', 0.2)]),
      (''pec fly machine'', [(''chest'', 1.0)]),
      (''cable chest fly'', [(''chest'', 1.0)]),
      (''dip'', [(''chest'', 0.6), (''triceps'', 0.4)]),
      (''shoulder press'', [(''shoulders'', 0.8), (''triceps'', 0.2)]),
      (''db lateral raise'', [(''shoulders'', 1.0)]),
      (''face pull'', [(''shoulders'', 0.6), (''trapezius'', 0.4), (''rear delts'', 0.3)]),
      (''overhead press'', [(''shoulders'', 0.8), (''triceps'', 0.2)]),
      (''front raise'', [(''shoulders'', 1.0)]),
      (''lat raises'', [(''shoulders'', 1.0)]),
      (''rear delt fly'', [(''shoulders'', 1.0)]),
      (''bicep curl'', [(''biceps'', 1.0)]),
      (''hammer curl'', [(''biceps'', 0.8), (''forearms'', 0.2)]),
      (''preacher curl'', [(''biceps'', 1.0)]),
      (''cable curl'', [(''biceps'', 1.0)]),
      (''ez bar curl'', [(''biceps'', 0.9), (''forearms'', 0.1)]),
      (''skull crushers'', [(''triceps'', 1.0)]),
      (''tricep extension'', [(''triceps'', 1.0)]),
      (''triceps pushdown'', [(''triceps'', 1.0)]),
      (''triceps rope pulldown'', [(''triceps'', 1.0)]),
      (''squat'', [(''quads'', 0.6), (''glutes'', 0.3), (''hamstrings'', 0.2)]),
      (''back squat'', [(''quads'', 0.6), (''glutes'', 0.3), (''hamstrings'', 0.2)]),
      (''front squat'', [(''quads'', 0.7), (''glutes'', 0.2), (''hamstrings'', 0.1)]),
      (''leg press'', [(''quads'', 0.7), (''glutes'', 0.2), (''hamstrings'', 0.1)]),
      (''hack squat'', [(''quads'', 0.8), (''glutes'', 0.2)]),
      (''bulgarian split squat'', [(''quads'', 0.5), (''glutes'', 0.3), (''hamstrings'', 0.2)]),
      (''leg extension'', [(''quads'', 1.0)]),
      (''leg curl'', [(''hamstrings'', 1.0)]),
      (''romanian deadlift'', [(''hamstrings'', 0.6), (''glutes'', 0.3), (''back'', 0.2)]),
      (''prone machine hamstring curl'', [(''hamstrings'', 1.0)]),
      (''calf raise'', [(''calves'', 1.0)]),
      (''deadlift'', [(''back'', 0.5), (''glutes'', 0.3), (''hamstrings'', 0.3),
                     (''trapezius'', 0.2), (''forearms'', 0.1)]),
      (''deadlift paused'', [(''back'', 0.5), (''glutes'', 0.3), (''hamstrings'', 0.3),
                            (''trapezius'', 0.2), (''forearms'', 0.1)]),
      (''lat pulldown'', [(''lats'', 0.8), (''biceps'', 0.2)]),
      (''pull up'', [(''lats'', 0.7), (''biceps'', 0.3)]),
      (''row'', [(''back'', 0.7), (''biceps'', 0.3)]),
      (''barbell row'', [(''back'', 0.7), (''biceps'', 0.2), (''forearms'', 0.1)]),
      (''t bar row'', [(''back'', 0.8), (''biceps'', 0.2)]),
      (''seated cable row'', [(''back'', 0.7), (''biceps'', 0.2), (''forearms'', 0.1)]),
      (''back extension'', [(''back'', 0.8), (''glutes'', 0.2)]),
      (''crunch'', [(''abs'', 1.0)]),
      (''plank'', [(''abs'', 0.7), (''obliques'', 0.3)]),
      (''reverse fly'', [(''rear delts'', 0.8), (''trapezius'', 0.2)]),
      (''bent over lateral raise'', [(''rear delts'', 0.9), (''trapezius'', 0.1)]) ]"

text \<open>
  \<open>str.lower\<close> on ASCII text: the capital letters A to Z are replaced, every other
  character is kept.
\<close>

definition lower_char :: "char \<Rightarrow> char" where
  "lower_char c =
     (case map_of (zip ''ABCDEFGHIJKLMNOPQRSTUVWXYZ'' ''abcdefghijklmnopqrstuvwxyz'') c of
        None \<Rightarrow> c
      | Some l \<Rightarrow> l)"

definition lower :: "string \<Rightarrow> string" where
  "lower s = map lower_char s"

text \<open>The test \<open>key in exercise_name\<close> on strings: \<open>key\<close> occurs as a substring.\<close>

fun starts_with :: "string \<Rightarrow> string \<Rightarrow> bool" where
  "starts_with [] s = True"
| "starts_with (k # ks) [] = False"
| "starts_with (k # ks) (c # cs) = (k = c \<and> starts_with ks cs)"

fun contains :: "string \<Rightarrow> string \<Rightarrow> bool" where
  "contains key [] = (key = [])"
| "contains key (c # cs) = (starts_with key (c # cs) \<or> contains key cs)"

text \<open>
  \<^verbatim>\<open>
  def engage_muscles(self, exercise, workout_date):
      exercise_name = exercise['exercise'].lower()
      load = self.calculate_load(exercise)
      matched_exercise = next((key for key in self.engagement_map.keys()
                               if key in exercise_name), None)
      if matched_exercise and load > 0:
          engagement = self.engagement_map[matched_exercise]
          for muscle, factor in engagement.items():
              if muscle not in self.muscle_recovery:
                  self.muscle_recovery[muscle] = {'fatigue': 0, 'last_workout': workout_date}
              fatigue_increase = min(load * factor * self.fatigue_multiplier / 100,
                                     self.fatigue_threshold)
              current_fatigue = self.muscle_recovery[muscle]['fatigue']
              new_fatigue = min(self.fatigue_threshold, current_fatigue + fatigue_increase)
              self.muscle_recovery[muscle]['fatigue'] = new_fatigue
              self.muscle_recovery[muscle]['last_workout'] = workout_date
  \<close>
  \<open>matched_exercise\<close> returns the first item of the table whose key occurs in the
  name: the key and, the keys of a dictionary being distinct, the engagement stored
  under it.
  An \<open>OverflowError\<close> of \<open>calculate_load\<close> leaves \<open>engage_muscles\<close> before
  anything is written; \<open>engage_with_load\<close> is the rest of the body, once the load is
  known.
\<close>

definition matched_exercise :: "string \<Rightarrow> (string \<times> (string \<times> real) list) option" where
  "matched_exercise exercise_name =
     find (\<lambda>item. contains (fst item) exercise_name) engagement_map"

definition engage_muscle :: "real \<Rightarrow> int \<Rightarrow> recovery_dict \<Rightarrow> string \<times> real \<Rightarrow> recovery_dict" where
  "engage_muscle load workout_date mr mf =
     (let muscle = fst mf;
          factor = snd mf;
          st = (case map_of mr muscle of
                  None \<Rightarrow> \<lparr>fatigue = 0, last_workout = Some workout_date\<rparr>
                | Some st \<Rightarrow> st);
          fatigue_increase = min (load * factor * fatigue_multiplier / 100) fatigue_threshold;
          current_fatigue = fatigue st;
          new_fatigue = min fatigue_threshold (current_fatigue + fatigue_increase)
      in AList.update muscle \<lparr>fatigue = new_fatigue, last_workout = Some workout_date\<rparr> mr)"

definition engage_with_load :: "real \<Rightarrow> recovery_dict \<Rightarrow> string \<Rightarrow> int \<Rightarrow> recovery_dict" where
  "engage_with_load load mr exercise_name workout_date =
     (case matched_exercise exercise_name of
        None \<Rightarrow> mr
      | Some item \<Rightarrow>
          if fst item \<noteq> [] \<and> load > 0
          then foldl (engage_muscle load workout_date) mr (snd item)
          else mr)"

definition engage_muscles ::
  "int_parser \<Rightarrow> float_parser \<Rightarrow> recovery_dict \<Rightarrow> entry \<Rightarrow> int
     \<Rightarrow> error + recovery_dict" where
  "engage_muscles py_int py_float mr ex workout_date =
     (let exercise_name = lower (exercise ex)
      in case calculate_load py_int py_float ex of
           Inl e \<Rightarrow> Inl e
         | Inr load \<Rightarrow> Inr (engage_with_load load mr exercise_name workout_date))"

text \<open>
  The two decay functions. Both walk over the items of \<open>self.muscle_recovery\<close> and
  rewrite the fatigue of every muscle that has a last workout; \<open>self.recovery_rates[muscle]\<close>
  raises \<open>KeyError\<close> for a muscle without a rate.
  \<^verbatim>\<open>
  def calculate_current_fatigue(self):
      for muscle, data in self.muscle_recovery.items():
          last_workout = data['last_workout']
          if last_workout:
              days_since_workout = max(0, (self.current_date - last_workout).days)
              recovery_rate = self.recovery_rates[muscle]
              recovery_amount = recovery_rate * days_since_workout
              current_fatigue = max(0, data['fatigue'] - recovery_amount)
              self.muscle_recovery[muscle]['fatigue'] = current_fatigue

  def update_muscle_recovery(self):
      for muscle, recovery_data in self.muscle_recovery.items():
          last_workout_date = recovery_data['last_workout']
          if last_workout_date:
              days_elapsed = (self.current_date - last_workout_date).days
              recovery_rate = self.recovery_rates[muscle]
              recovery_amount = recovery_rate * days_elapsed
              current_fatigue = recovery_data['fatigue']
              new_fatigue = max(current_fatigue - recovery_amount, 0.0)
              self.muscle_recovery[muscle]['fatigue'] = new_fatigue
  \<close>
  \<open>self.current_date\<close> is read only, and has to hold a date object: it is the first
  argument.
\<close>

definition current_fatigue_of :: "int \<Rightarrow> string \<Rightarrow> muscle_state \<Rightarrow> error + muscle_state" where
  "current_fatigue_of today muscle data =
     (case last_workout data of
        None \<Rightarrow> Inr data
      | Some lw \<Rightarrow>
          (case map_of recovery_rates muscle of
             None \<Rightarrow> Inl KeyError
           | Some recovery_rate \<Rightarrow>
               (let days_since_workout = max 0 (today - lw);
                    recovery_amount = recovery_rate * days_since_workout;
                    current_fatigue = max 0 (fatigue data - of_int recovery_amount)
                in Inr (data\<lparr>fatigue := current_fatigue\<rparr>))))"

definition recovered_fatigue_of :: "int \<Rightarrow> string \<Rightarrow> muscle_state \<Rightarrow> error + muscle_state" where
  "recovered_fatigue_of today muscle recovery_data =
     (case last_workout recovery_data of
        None \<Rightarrow> Inr recovery_data
      | Some lw \<Rightarrow>
          (case map_of recovery_rates muscle of
             None \<Rightarrow> Inl KeyError
           | Some recovery_rate \<Rightarrow>
               (let days_elapsed = today - lw;
                    recovery_amount = recovery_rate * days_elapsed;
                    current_fatigue = fatigue recovery_data;
                    new_fatigue = max (current_fatigue - of_int recovery_amount) 0
                in Inr (recovery_data\<lparr>fatigue := new_fatigue\<rparr>))))"

fun for_each_muscle ::
  "(string \<Rightarrow> muscle_state \<Rightarrow> error + muscle_state) \<Rightarrow> recovery_dict \<Rightarrow> error + recovery_dict" where
  "for_each_muscle f [] = Inr []"
| "for_each_muscle f (item # rest) =
     (case f (fst item) (snd item) of
        Inl e \<Rightarrow> Inl e
      | Inr data \<Rightarrow>
          (case for_each_muscle f rest of
             Inl e \<Rightarrow> Inl e
           | Inr rest' \<Rightarrow> Inr ((fst item, data) # rest')))"

definition calculate_current_fatigue :: "int \<Rightarrow> recovery_dict \<Rightarrow> error + recovery_dict" where
  "calculate_current_fatigue today mr = for_each_muscle (current_fatigue_of today) mr"

definition update_muscle_recovery :: "int \<Rightarrow> recovery_dict \<Rightarrow> error + recovery_dict" where
  "update_muscle_recovery today mr = for_each_muscle (recovered_fatigue_of today) mr"

text \<open>
  A run of the engine: any sequence of the three operations, from a given state; the
  first error ends it.
\<close>

datatype engine_op = Engage entry int | CurrentFatigue int | Recover int

definition engine_step ::
  "int_parser \<Rightarrow> float_parser \<Rightarrow> recovery_dict \<Rightarrow> engine_op \<Rightarrow> error + recovery_dict" where
  "engine_step py_int py_float mr op =
     (case op of
        Engage ex d \<Rightarrow> engage_muscles py_int py_float mr ex d
      | CurrentFatigue today \<Rightarrow> calculate_current_fatigue today mr
      | Recover today \<Rightarrow> update_muscle_recovery today mr)"

fun engine_run ::
  "int_parser \<Rightarrow> float_parser \<Rightarrow> recovery_dict \<Rightarrow> engine_op list \<Rightarrow> error + recovery_dict" where
  "engine_run py_int py_float mr [] = Inr mr"
| "engine_run py_int py_float mr (op # ops) =
     (case engine_step py_int py_float mr op of
        Inl e \<Rightarrow> Inl e
      | Inr mr' \<Rightarrow> engine_run py_int py_float mr' ops)"

section \<open>Plan structure manager\<close>

text \<open>
  List indexing \<open>xs[i]\<close> (a negative index counts from the end, \<open>None\<close> is the
  \<open>IndexError\<close>), the slice \<open>xs[:k]\<close>, \<open>xs.index(x)\<close> (\<open>None\<close> is the
  \<open>ValueError\<close>) and \<open>str(n)\<close> for a natural number.
\<close>

definition norm_index :: "'a list \<Rightarrow> int \<Rightarrow> nat option" where
  "norm_index xs i =
     (if 0 \<le> i \<and> i < int (length xs) then Some (nat i)
      else if i < 0 \<and> - int (length xs) \<le> i then Some (nat (int (length xs) + i))
      else None)"

definition slice_to :: "'a list \<Rightarrow> int \<Rightarrow> 'a list" where
  "slice_to xs k = (if k < 0 then take (nat (int (length xs) + k)) xs else take (nat k) xs)"

fun list_index :: "'a list \<Rightarrow> 'a \<Rightarrow> nat option" where
  "list_index [] x = None"
| "list_index (y # ys) x = (if y = x then Some 0 else map_option Suc (list_index ys x))"

fun str_of_nat :: "nat \<Rightarrow> string" where
  "str_of_nat n =
     (if n < 10 then [''0123456789'' ! n]
      else str_of_nat (n div 10) @ [''0123456789'' ! (n mod 10)])"

declare str_of_nat.simps [simp del]

text \<open>
  \<^verbatim>\<open>
  def renumber_all_days(self):
      day_number = 1
      for week in self.workouts:
          for workout in week:
              workout['day'] = f"Day {day_number}"
              day_number += 1
  \<close>
\<close>

fun renumber_week :: "nat \<Rightarrow> workout list \<Rightarrow> workout list" where
  "renumber_week day_number [] = []"
| "renumber_week day_number (w # week) =
     w\<lparr>day := ''Day '' @ str_of_nat day_number\<rparr> # renumber_week (Suc day_number) week"

fun renumber_from :: "nat \<Rightarrow> workout list list \<Rightarrow> workout list list" where
  "renumber_from day_number [] = []"
| "renumber_from day_number (week # weeks) =
     renumber_week day_number week # renumber_from (day_number + length week) weeks"

definition renumber_all_days :: "workout list list \<Rightarrow> workout list list" where
  "renumber_all_days ws = renumber_from 1 ws"

text \<open>
  \<^verbatim>\<open>
  def add_day(self):
      max_days_per_week = 7
      current_week_days = self.workouts[self.current_week - 1]
      if len(current_week_days) >= max_days_per_week:
          messagebox.showwarning("Maximum Days Reached", ...)
          return
      new_day_number = sum(len(week) for week in self.workouts[:self.current_week - 1]) \
                       + len(current_week_days) + 1
      new_day = {'day': f"Day {new_day_number}", 'exercises': [],
                 'date': (date.today() + timedelta(days=new_day_number - 1)).strftime('%Y-%m-%d')}
      current_week_days.append(new_day)
      self.current_day = len(current_week_days) - 1
      self.renumber_all_days()
      ...

  def remove_day(self):
      current_week_days = self.workouts[self.current_week - 1]
      if len(current_week_days) <= 1:
          messagebox.showwarning("Cannot Remove Day", ...)
          return
      ... day_options = [day['day'] for day in current_week_days] ...
      def perform_remove():
          day_index = day_options.index(day_var.get())
          removed_day = current_week_days.pop(day_index)
          self.renumber_all_days()
          if self.current_day >= len(current_week_days):
              self.current_day = len(current_week_days) - 1
          ...
  \<close>
  Both return the warning or exception that ended the operation, if any, next to the
  state they leave. \<open>date.today()\<close> and \<open>strftime\<close> are arguments of \<open>add_day\<close>, the
  label picked in the dialog is the argument of \<open>remove_day\<close>. After their own writes
  both call \<open>load_workout_data\<close> and \<open>update_week_dropdown\<close>, which refresh the
  widgets and the derived date, fatigue and PR data and write none of the three
  attributes of \<open>plan_state\<close>.
\<close>

definition add_day :: "int \<Rightarrow> (int \<Rightarrow> string) \<Rightarrow> plan_state \<Rightarrow> error option \<times> plan_state" where
  "add_day today strftime s =
     (case norm_index (workouts s) (current_week s - 1) of
        None \<Rightarrow> (Some IndexError, s)
      | Some k \<Rightarrow>
          (let current_week_days = workouts s ! k
           in if length current_week_days \<ge> 7 then (Some CapacityError, s)
              else
                (let new_day_number =
                       sum_list (map length (slice_to (workouts s) (current_week s - 1)))
                       + length current_week_days + 1;
                     new_day = \<lparr>day = ''Day '' @ str_of_nat new_day_number,
                                exercises = [],
                                date = Some (strftime (today + (int new_day_number - 1)))\<rparr>;
                     week' = current_week_days @ [new_day]
                 in (None, s\<lparr>workouts := renumber_all_days ((workouts s)[k := week']),
                             current_day := int (length week') - 1\<rparr>))))"

definition remove_day :: "string \<Rightarrow> plan_state \<Rightarrow> error option \<times> plan_state" where
  "remove_day picked s =
     (case norm_index (workouts s) (current_week s - 1) of
        None \<Rightarrow> (Some IndexError, s)
      | Some k \<Rightarrow>
          (let current_week_days = workouts s ! k
           in if length current_week_days \<le> 1 then (Some MinimumDaysError, s)
              else
                (let day_options = map day current_week_days
                 in case list_index day_options picked of
                      None \<Rightarrow> (Some ValueError, s)
                    | Some day_index \<Rightarrow>
                        (let week' = take day_index current_week_days
                                     @ drop (Suc day_index) current_week_days
                         in (None,
                             s\<lparr>workouts := renumber_all_days ((workouts s)[k := week']),
                               current_day :=
                                 (if current_day s \<ge> int (length week')
                                  then int (length week') - 1 else current_day s)\<rparr>)))))"

text \<open>
  \<^verbatim>\<open>
  def restructure_workouts(self, workouts):
      if isinstance(workouts, list) and all(isinstance(week, list) for week in workouts):
          return workouts
      restructured = []
      week = []
      for workout in workouts:
          week.append(workout)
          if len(week) == 5:
              restructured.append(week)
              week = []
      if week:
          restructured.append(week)
      return restructured
  \<close>
  The argument is a list of weeks or a flat list of days. The empty list passes the
  first test and is returned as it is, which is also what the loop would give.
\<close>

datatype 'a plan_input = Nested "'a list list" | Flat "'a list"

fun group_loop :: "'a list list \<Rightarrow> 'a list \<Rightarrow> 'a list \<Rightarrow> 'a list list \<times> 'a list" where
  "group_loop restructured week [] = (restructured, week)"
| "group_loop restructured week (workout # rest) =
     (let week' = week @ [workout]
      in if length week' = 5 then group_loop (restructured @ [week']) [] rest
         else group_loop restructured week' rest)"

definition restructure_workouts :: "'a plan_input \<Rightarrow> 'a list list" where
  "restructure_workouts inp =
     (case inp of
        Nested ws \<Rightarrow> ws
      | Flat days \<Rightarrow>
          (let res = group_loop [] [] days
           in if snd res \<noteq> [] then fst res @ [snd res] else fst res))"

section \<open>Sample parsers\<close>

text \<open>
  Two instances of the parser arguments, for running the model on concrete entries:
  plain decimal numerals, with an optional minus sign. Python's \<open>int\<close> and \<open>float\<close>
  accept these texts with these values (and others besides).
\<close>

definition digit_of :: "char \<Rightarrow> nat option" where
  "digit_of c =
     (let n = (of_char c :: nat) in if 48 \<le> n \<and> n \<le> 57 then Some (n - 48) else None)"

fun digits_value :: "nat \<Rightarrow> string \<Rightarrow> nat option" where
  "digits_value acc [] = Some acc"
| "digits_value acc (c # cs) =
     (case digit_of c of None \<Rightarrow> None | Some d \<Rightarrow> digits_value (10 * acc + d) cs)"

definition decimal_int :: int_parser where
  "decimal_int s =
     (case s of
        [] \<Rightarrow> None
      | c # cs \<Rightarrow>
          if c = CHR ''-''
          then (if cs = [] then None else map_option (\<lambda>n. - int n) (digits_value 0 cs))
          else map_option int (digits_value 0 s))"

definition decimal_float :: float_parser where
  "decimal_float s = map_option of_int (decimal_int s)"

section \<open>Runs and sample inputs\<close>

text \<open>
  A sequence of \<open>update_prs\<close> calls, each with the value of \<open>self.current_date\<close> at
  the time of the call, applied from left to right.
\<close>

definition record_calls ::
  "int_parser \<Rightarrow> float_parser \<Rightarrow> prs_dict \<Rightarrow> (pydate \<times> entry) list \<Rightarrow> prs_dict" where
  "record_calls py_int py_float recs calls =
     foldl (\<lambda>p call. update_prs py_int py_float (fst call) p (snd call)) recs calls"

definition bench :: entry where
  "bench = \<lparr>exercise = ''Bench Press'', sets = ''3'', reps = ''5'', weight = ''100''\<rparr>"

definition huge_sets :: entry where
  "huge_sets = bench\<lparr>sets := CHR ''1'' # replicate 400 (CHR ''0''), reps := ''1'', weight := ''1''\<rparr>"

definition empty_day :: workout where
  "empty_day = \<lparr>day = ''Day 1'', exercises = [], date = None\<rparr>"

text \<open>
  The calls that \<open>recalculate_prs\<close> makes, written out. The date in force after a
  list of days is the text stored with the last of them that has one, or else the date
  given; \<open>on_date cd ds i\<close> is the date in force after day \<open>i\<close> of \<open>ds\<close>, and
  \<open>replay_calls\<close> pairs every exercise of every day, in order, with the date of its
  day. \<open>plan_names\<close> are the exercise names of a plan.
\<close>

definition stored_dates :: "workout list \<Rightarrow> string list" where
  "stored_dates ds = List.map_filter date ds"

definition date_in_force :: "pydate \<Rightarrow> workout list \<Rightarrow> pydate" where
  "date_in_force cd ds =
     (if stored_dates ds = [] then cd else DateStr (last (stored_dates ds)))"

definition on_date :: "pydate \<Rightarrow> workout list \<Rightarrow> nat \<Rightarrow> pydate" where
  "on_date cd ds i = date_in_force cd (take (Suc i) ds)"

definition replay_calls :: "pydate \<Rightarrow> workout list \<Rightarrow> (pydate \<times> entry) list" where
  "replay_calls cd ds =
     concat (map (\<lambda>i. map (\<lambda>ex. (on_date cd ds i, ex)) (exercises (ds ! i))) [0..<length ds])"

definition plan_names :: "workout list list \<Rightarrow> string set" where
  "plan_names ws = exercise ` (\<Union>d \<in> set (concat ws). set (exercises d))"

text \<open>
  The recomputation as the specification words it, to compare with \<open>recalculate_prs\<close>:
  clear all PR state, then record every exercise of every week and day in plan order,
  with the stored date of its day, or the epoch date 2000-01-01 for a day without one.
\<close>

definition recompute_spec ::
  "int_parser \<Rightarrow> float_parser \<Rightarrow> workout list list \<Rightarrow> prs_dict" where
  "recompute_spec py_int py_float ws =
     record_calls py_int py_float []
       (concat (map (\<lambda>d. map (\<lambda>ex. (case date d of None \<Rightarrow> DateStr ''2000-01-01''
                                               | Some t \<Rightarrow> DateStr t, ex))
                               (exercises d))
                    (concat ws)))"

text \<open>
  Two sample planners: a plan whose first day has no stored date, and the same two days
  in the other order. The ordinal 738977 is 2024-04-01.
\<close>

definition undated_day :: workout where
  "undated_day = \<lparr>day = ''Day 1'', exercises = [bench], date = None\<rparr>"

definition dated_day :: workout where
  "dated_day = \<lparr>day = ''Day 2'', exercises = [bench\<lparr>reps := ''8'', weight := ''120''\<rparr>],
                 date = Some ''2024-01-08''\<rparr>"

definition undated_first :: planner where
  "undated_first = \<lparr>workouts = [[undated_day], [dated_day]], current_week = 1, current_day = 0,
                     current_date = DateObj 738977, prs = []\<rparr>"







text \<open>
  The fatigue stored for a muscle; a muscle that is not tracked yet counts with the
  fatigue 0 it is created with.
\<close>

definition fatigue_of :: "recovery_dict \<Rightarrow> string \<Rightarrow> real" where
  "fatigue_of mr muscle = (case map_of mr muscle of None \<Rightarrow> 0 | Some st \<Rightarrow> fatigue st)"

text \<open>
  Two invariants of the muscle state: every tracked muscle has a recovery rate and a
  fatigue that is not negative; and no fatigue is above the threshold. \<open>is_recover\<close>
  singles out the runs of \<open>update_muscle_recovery\<close>.
\<close>

definition tracked_ok :: "recovery_dict \<Rightarrow> bool" where
  "tracked_ok mr \<longleftrightarrow>
     (\<forall>item \<in> set mr. fst item \<in> fst ` set recovery_rates \<and> 0 \<le> fatigue (snd item))"

definition within_threshold :: "recovery_dict \<Rightarrow> bool" where
  "within_threshold mr \<longleftrightarrow> (\<forall>item \<in> set mr. fatigue (snd item) \<le> fatigue_threshold)"

fun is_recover :: "engine_op \<Rightarrow> bool" where
  "is_recover (Recover today) = True"
| "is_recover (Engage ex d) = False"
| "is_recover (CurrentFatigue today) = False"

text \<open>
  The reps PR of a record is backed by its history: it is still unset, or the history
  holds a performance with that number of reps, on the date of the reps PR, at a weight
  not above the best weight.
\<close>

definition reps_backed :: "pr_data \<Rightarrow> bool" where
  "reps_backed p \<longleftrightarrow>
     pr_date (reps_pr p) = None
     \<or> (\<exists>h \<in> set (history p). h_reps h = pr_value (reps_pr p)
            \<and> pr_date (reps_pr p) = Some (h_date h)
            \<and> h_weight h \<le> pr_value (weight_pr p))"

section \<open>Load calculator: verification\<close>

lemma decimal_int_samples:
  "decimal_int ''3'' = Some 3" "decimal_int ''5'' = Some 5" "decimal_int ''100'' = Some 100"
  "decimal_int ''8'' = Some 8" "decimal_int ''120'' = Some 120" "decimal_int ''heavy'' = None"
  "decimal_int '''' = None"
  by (simp_all add: decimal_int_def digit_of_def)

lemma decimal_float_samples:
  "decimal_float ''100'' = Some 100" "decimal_float ''120'' = Some 120"
  "decimal_float ''heavy'' = None" "decimal_float '''' = None"
  by (simp_all add: decimal_float_def decimal_int_def digit_of_def)

lemma digits_value_zeros:
  "digits_value acc (replicate n (CHR ''0'')) = Some (acc * 10 ^ n)"
  by (induction n arbitrary: acc) (simp_all add: digit_of_def)

lemma decimal_int_huge: "decimal_int (CHR ''1'' # replicate 400 (CHR ''0'')) = Some (10 ^ 400)"
  by (simp add: decimal_int_def digits_value_zeros digit_of_def)

lemma decimal_one: "decimal_int ''1'' = Some 1" "decimal_float ''1'' = Some 1"
  by (simp_all add: decimal_float_def decimal_int_def digit_of_def)

text \<open>
  What the function returns: 0 when one of the three texts does not parse; the product
  when all three parse and the integer \<open>sets * reps\<close> is within float range; and the
  \<open>OverflowError\<close> when all three parse and it is not.
\<close>

lemma calculate_load_cases:
  "(py_int (sets ex) = None \<or> py_int (reps ex) = None \<or> py_float (weight ex) = None
      \<longrightarrow> calculate_load py_int py_float ex = Inr 0)
   \<and> (py_int (sets ex) = Some s \<and> py_int (reps ex) = Some r \<and> py_float (weight ex) = Some w
        \<and> \<bar>s * r\<bar> < 2 ^ 1024 - 2 ^ 970
      \<longrightarrow> calculate_load py_int py_float ex = Inr (of_int s * of_int r * w))
   \<and> (py_int (sets ex) = Some s \<and> py_int (reps ex) = Some r \<and> py_float (weight ex) = Some w
        \<and> \<bar>s * r\<bar> \<ge> 2 ^ 1024 - 2 ^ 970
      \<longrightarrow> calculate_load py_int py_float ex = Inl OverflowError)"
  by (auto simp: calculate_load_def float_of_int_def split: option.splits)

lemma load_bench: "calculate_load decimal_int decimal_float bench = Inr 1500"
  by (simp add: calculate_load_def float_of_int_def bench_def decimal_int_samples
      decimal_float_samples)

text \<open>
  Claim C9 at a failing input. The entry with sets \<open>1\<close> followed by 400 zeros, reps
  \<open>1\<close> and weight \<open>1\<close>: the three texts parse, the integer product is \<open>10^400\<close>, its
  conversion to a float raises \<open>OverflowError\<close>, and the handler, which catches
  \<open>ValueError\<close> only, lets it pass: the function raises where the claim has it return
  the product.
\<close>

theorem calculate_load_overflow:
  "calculate_load decimal_int decimal_float huge_sets = Inl OverflowError"
  by (simp add: calculate_load_def float_of_int_def huge_sets_def bench_def decimal_int_huge
      decimal_one)

section \<open>PR tracker: verification\<close>

text \<open>
  Claim C8. When the weight of an entry does not parse as a decimal, or its reps do
  not parse as an integer, \<open>update_prs\<close> returns the PR dictionary it was given:
  no record is created or changed, nothing is appended to a history, and no error
  value is produced.
\<close>

theorem update_prs_parse_failure:
  "py_float (weight ex) = None \<or> py_int (reps ex) = None
   \<Longrightarrow> update_prs py_int py_float cd recs ex = recs"
  by (auto simp: update_prs_def split: option.splits)

theorem update_prs_parse_failure_witness:
  "update_prs decimal_int decimal_float (DateStr ''2024-01-01'')
     [(''Bench Press'', zero_pr)] (bench\<lparr>weight := ''heavy''\<rparr>) = [(''Bench Press'', zero_pr)]
   \<and> update_prs decimal_int decimal_float (DateStr ''2024-01-01'')
     [(''Bench Press'', zero_pr)] (bench\<lparr>reps := ''''\<rparr>) = [(''Bench Press'', zero_pr)]"
  using update_prs_parse_failure [of decimal_float "bench\<lparr>weight := ''heavy''\<rparr>" decimal_int
      "DateStr ''2024-01-01''" "[(''Bench Press'', zero_pr)]"]
    update_prs_parse_failure [of decimal_float "bench\<lparr>reps := ''''\<rparr>" decimal_int
      "DateStr ''2024-01-01''" "[(''Bench Press'', zero_pr)]"]
  by (simp add: bench_def decimal_int_samples decimal_float_samples)

lemma pr_of_update:
  "pr_of (AList.update k v recs) n = (if n = k then v else pr_of recs n)"
  by (simp add: pr_of_def update_conv')

lemma weight_pr_record_pr:
  "weight_pr (record_pr cd w r p) =
     (if w > pr_value (weight_pr p) then \<lparr>pr_value = w, pr_date = Some cd\<rparr> else weight_pr p)"
  by (simp add: record_pr_def append_history_def apply_reps_def apply_weight_def)

lemma reps_pr_record_pr:
  "reps_pr (record_pr cd w r p) =
     (if pr_value (weight_pr p) \<le> w \<and> r > pr_value (reps_pr p)
      then \<lparr>pr_value = r, pr_date = Some cd\<rparr> else reps_pr p)"
  by (simp add: record_pr_def append_history_def apply_reps_def apply_weight_def)

lemma weight_value_record_pr:
  "pr_value (weight_pr (record_pr cd w r p)) = max w (pr_value (weight_pr p))"
  by (simp add: weight_pr_record_pr)

lemma history_record_pr:
  "history (record_pr cd w r p) = history p @ [\<lparr>h_date = cd, h_weight = w, h_reps = r\<rparr>]"
  by (simp add: record_pr_def append_history_def apply_reps_def apply_weight_def)

lemma pr_of_update_prs:
  "pr_of (update_prs py_int py_float cd recs ex) n =
     (case (py_float (weight ex), py_int (reps ex)) of
        (Some w, Some r) \<Rightarrow> if n = exercise ex then record_pr cd w r (pr_of recs n) else pr_of recs n
      | _ \<Rightarrow> pr_of recs n)"
  by (simp add: update_prs_def pr_of_update split: option.splits)

lemma weight_value_update_prs_mono:
  "pr_value (weight_pr (pr_of recs n))
     \<le> pr_value (weight_pr (pr_of (update_prs py_int py_float cd recs ex) n))"
  by (simp add: pr_of_update_prs weight_pr_record_pr split: option.splits)

lemma weight_value_record_calls_mono:
  "pr_value (weight_pr (pr_of recs n))
     \<le> pr_value (weight_pr (pr_of (record_calls py_int py_float recs calls) n))"
proof (induction calls arbitrary: recs)
  case Nil
  then show ?case by (simp add: record_calls_def)
next
  case (Cons c calls)
  have "pr_value (weight_pr (pr_of recs n))
          \<le> pr_value (weight_pr (pr_of (update_prs py_int py_float (fst c) recs (snd c)) n))"
    by (rule weight_value_update_prs_mono)
  also have "\<dots> \<le> pr_value (weight_pr (pr_of (record_calls py_int py_float
                      (update_prs py_int py_float (fst c) recs (snd c)) calls) n))"
    by (rule Cons.IH)
  finally show ?case by (simp add: record_calls_def)
qed


text \<open>
  Claim C2. Along any sequence of \<open>update_prs\<close> calls the weight PR value of a name
  never decreases. A single call changes the weight PR of a name only if the call is
  for that name and its parsed weight is strictly greater than the best weight stored
  before the call (which then becomes the weight PR, with the call's date); it changes
  the reps PR only if the call is for that name, its parsed weight equals the best
  weight stored when the reps test is evaluated (that is, after the weight step of the
  same call), and its parsed reps are strictly greater than the reps PR stored before.
  A name without a record counts with the zero record that the call would create.
\<close>

theorem pr_update_rule:
  "pr_value (weight_pr (pr_of (record_calls py_int py_float recs before) n))
     \<le> pr_value (weight_pr (pr_of (record_calls py_int py_float recs (before @ after)) n))
   \<and> (weight_pr (pr_of (update_prs py_int py_float cd recs ex) n) \<noteq> weight_pr (pr_of recs n)
        \<longrightarrow> n = exercise ex
            \<and> (\<exists>w. py_float (weight ex) = Some w \<and> w > pr_value (weight_pr (pr_of recs n))
                   \<and> weight_pr (pr_of (update_prs py_int py_float cd recs ex) n)
                       = \<lparr>pr_value = w, pr_date = Some cd\<rparr>))
   \<and> (reps_pr (pr_of (update_prs py_int py_float cd recs ex) n) \<noteq> reps_pr (pr_of recs n)
        \<longrightarrow> n = exercise ex
            \<and> (\<exists>w r. py_float (weight ex) = Some w \<and> py_int (reps ex) = Some r
                   \<and> pr_value (weight_pr (pr_of (update_prs py_int py_float cd recs ex) n)) = w
                   \<and> r > pr_value (reps_pr (pr_of recs n))))"
proof (intro conjI)
  show "pr_value (weight_pr (pr_of (record_calls py_int py_float recs before) n))
     \<le> pr_value (weight_pr (pr_of (record_calls py_int py_float recs (before @ after)) n))"
    using weight_value_record_calls_mono [of "record_calls py_int py_float recs before" n py_int py_float after]
    by (simp add: record_calls_def)
next
  show "weight_pr (pr_of (update_prs py_int py_float cd recs ex) n) \<noteq> weight_pr (pr_of recs n)
        \<longrightarrow> n = exercise ex
            \<and> (\<exists>w. py_float (weight ex) = Some w \<and> w > pr_value (weight_pr (pr_of recs n))
                   \<and> weight_pr (pr_of (update_prs py_int py_float cd recs ex) n)
                       = \<lparr>pr_value = w, pr_date = Some cd\<rparr>)"
    by (auto simp: pr_of_update_prs weight_pr_record_pr split: option.splits if_splits)
next
  show "reps_pr (pr_of (update_prs py_int py_float cd recs ex) n) \<noteq> reps_pr (pr_of recs n)
        \<longrightarrow> n = exercise ex
            \<and> (\<exists>w r. py_float (weight ex) = Some w \<and> py_int (reps ex) = Some r
                   \<and> pr_value (weight_pr (pr_of (update_prs py_int py_float cd recs ex) n)) = w
                   \<and> r > pr_value (reps_pr (pr_of recs n)))"
    by (auto simp: pr_of_update_prs reps_pr_record_pr weight_value_record_pr split: option.splits if_splits)
qed

lemma pr_of_Nil: "pr_of [] n = zero_pr"
  by (simp add: pr_of_def)

theorem pr_update_rule_witness:
  "pr_value (weight_pr (pr_of (record_calls decimal_int decimal_float []
       [(DateStr ''2024-01-01'', bench)]) ''Bench Press''))
     \<le> pr_value (weight_pr (pr_of (record_calls decimal_int decimal_float []
       ([(DateStr ''2024-01-01'', bench)] @ [(DateStr ''2024-01-08'', bench\<lparr>weight := ''120''\<rparr>)]))
       ''Bench Press''))
   \<and> weight_pr (pr_of (update_prs decimal_int decimal_float (DateStr ''2024-01-01'') [] bench)
         ''Bench Press'') \<noteq> weight_pr (pr_of [] ''Bench Press'')
   \<and> reps_pr (pr_of (update_prs decimal_int decimal_float (DateStr ''2024-01-01'') [] bench)
         ''Bench Press'') \<noteq> reps_pr (pr_of [] ''Bench Press'')
   \<and> ''Bench Press'' = exercise bench
   \<and> (\<exists>w r. decimal_float (weight bench) = Some w \<and> decimal_int (reps bench) = Some r
          \<and> pr_value (weight_pr (pr_of (update_prs decimal_int decimal_float
                 (DateStr ''2024-01-01'') [] bench) ''Bench Press'')) = w
          \<and> r > pr_value (reps_pr (pr_of [] ''Bench Press'')))"
proof -
  have w: "weight_pr (pr_of (update_prs decimal_int decimal_float (DateStr ''2024-01-01'') [] bench)
         ''Bench Press'') \<noteq> weight_pr (pr_of [] ''Bench Press'')"
    by (simp add: pr_of_update_prs weight_pr_record_pr bench_def decimal_int_samples
        decimal_float_samples pr_of_Nil zero_pr_def)
  have r: "reps_pr (pr_of (update_prs decimal_int decimal_float (DateStr ''2024-01-01'') [] bench)
         ''Bench Press'') \<noteq> reps_pr (pr_of [] ''Bench Press'')"
    by (simp add: pr_of_update_prs reps_pr_record_pr bench_def decimal_int_samples
        decimal_float_samples pr_of_Nil zero_pr_def)
  show ?thesis
    using w r pr_update_rule [of decimal_int decimal_float "[]" "[(DateStr ''2024-01-01'', bench)]"
        "''Bench Press''" "[(DateStr ''2024-01-08'', bench\<lparr>weight := ''120''\<rparr>)]"
        "DateStr ''2024-01-01''" bench]
    by blast
qed

lemma map_of_init_exercise:
  "map_of (init_exercise recs ex) n =
     (if map_of recs n = None \<and> n = exercise ex then Some zero_pr else map_of recs n)"
  by (auto simp: init_exercise_def map_add_def split: option.splits)

lemma map_of_init_exercises:
  "map_of (foldl init_exercise recs es) n =
     (if map_of recs n = None \<and> n \<in> exercise ` set es then Some zero_pr else map_of recs n)"
  by (induction es arbitrary: recs) (auto simp: map_of_init_exercise)

lemma map_of_init_days:
  "map_of (foldl init_day recs ds) n =
     (if map_of recs n = None \<and> n \<in> exercise ` (\<Union>d \<in> set ds. set (exercises d))
      then Some zero_pr else map_of recs n)"
  by (induction ds arbitrary: recs) (auto simp: init_day_def map_of_init_exercises)

lemma foldl_init_week:
  "foldl init_week recs ws = foldl init_day recs (concat ws)"
  by (induction ws arbitrary: recs) (simp_all add: init_week_def)

lemma map_of_initialize_prs:
  "map_of (initialize_prs ws) n = (if n \<in> plan_names ws then Some zero_pr else None)"
  by (simp add: initialize_prs_def foldl_init_week map_of_init_days plan_names_def)

lemma pr_of_initialize_prs: "pr_of (initialize_prs ws) n = zero_pr"
  by (simp add: pr_of_def map_of_initialize_prs)

lemma reps_backed_zero: "reps_backed zero_pr"
  by (simp add: reps_backed_def zero_pr_def)

lemma reps_backed_record_pr:
  assumes "reps_backed p"
  shows "reps_backed (record_pr cd w r p)"
proof (cases "pr_value (weight_pr p) \<le> w \<and> r > pr_value (reps_pr p)")
  case True
  let ?h = "\<lparr>h_date = cd, h_weight = w, h_reps = r\<rparr>"
  have "?h \<in> set (history (record_pr cd w r p))"
    by (simp add: history_record_pr)
  moreover have "h_reps ?h = pr_value (reps_pr (record_pr cd w r p))"
    using True by (simp add: reps_pr_record_pr)
  moreover have "pr_date (reps_pr (record_pr cd w r p)) = Some (h_date ?h)"
    using True by (simp add: reps_pr_record_pr)
  moreover have "h_weight ?h \<le> pr_value (weight_pr (record_pr cd w r p))"
    by (simp add: weight_value_record_pr)
  ultimately show ?thesis
    unfolding reps_backed_def by blast
next
  case False
  then have same: "reps_pr (record_pr cd w r p) = reps_pr p"
    by (auto simp: reps_pr_record_pr)
  show ?thesis
  proof (cases "pr_date (reps_pr p) = None")
    case True
    then show ?thesis by (simp add: reps_backed_def same)
  next
    case False
    with assms obtain h where h: "h \<in> set (history p)" "h_reps h = pr_value (reps_pr p)"
        "pr_date (reps_pr p) = Some (h_date h)" "h_weight h \<le> pr_value (weight_pr p)"
      by (auto simp: reps_backed_def)
    have "h \<in> set (history (record_pr cd w r p))"
      using h(1) by (simp add: history_record_pr)
    moreover have "h_weight h \<le> pr_value (weight_pr (record_pr cd w r p))"
      using h(4) by (simp add: weight_value_record_pr)
    ultimately show ?thesis
      unfolding reps_backed_def same using h(2,3) by blast
  qed
qed

lemma reps_backed_update_prs:
  assumes "\<And>n. reps_backed (pr_of recs n)"
  shows "reps_backed (pr_of (update_prs py_int py_float cd recs ex) n)"
  using assms by (auto simp: pr_of_update_prs reps_backed_record_pr split: option.splits)

lemma reps_backed_record_calls:
  assumes "\<And>n. reps_backed (pr_of recs n)"
  shows "reps_backed (pr_of (record_calls py_int py_float recs calls) n)"
  using assms
proof (induction calls arbitrary: recs n)
  case Nil
  then show ?case by (simp add: record_calls_def)
next
  case (Cons c calls)
  have "\<And>m. reps_backed (pr_of (update_prs py_int py_float (fst c) recs (snd c)) m)"
    using Cons.prems by (rule reps_backed_update_prs)
  from Cons.IH [OF this] show ?case by (simp add: record_calls_def)
qed

lemma reps_backed_from_start:
  "reps_backed (pr_of (record_calls py_int py_float (initialize_prs ws) calls) n)"
  by (rule reps_backed_record_calls) (simp add: pr_of_initialize_prs reps_backed_zero)

lemma after_bench:
  "pr_of (record_calls decimal_int decimal_float (initialize_prs [[undated_day]])
       [(DateStr ''2024-01-01'', bench)]) ''Bench Press''
   = \<lparr>weight_pr = \<lparr>pr_value = 100, pr_date = Some (DateStr ''2024-01-01'')\<rparr>,
      reps_pr = \<lparr>pr_value = 5, pr_date = Some (DateStr ''2024-01-01'')\<rparr>,
      history = [\<lparr>h_date = DateStr ''2024-01-01'', h_weight = 100, h_reps = 5\<rparr>]\<rparr>"
  by (simp add: record_calls_def pr_of_update_prs pr_of_initialize_prs bench_def
      decimal_int_samples decimal_float_samples record_pr_def apply_weight_def apply_reps_def
      append_history_def zero_pr_def)

text \<open>
  Claim C10. In one \<open>update_prs\<close> call whose parsed weight is strictly greater than
  the best weight stored before, the weight PR becomes that weight with the call's
  date, and the reps test is then made against this new best weight: the reps PR
  becomes the parsed reps, with the call's date, when they exceed the stored reps PR;
  otherwise the reps PR keeps its value, although, in every dictionary that the program
  builds (\<open>initialize_prs\<close> of a plan, followed by \<open>update_prs\<close> calls), a set reps
  PR was performed at a weight strictly below the new weight PR. The empty dictionary is
  \<open>initialize_prs\<close> of the empty plan.
\<close>

theorem weight_then_reps_same_call:
  assumes "py_float (weight ex) = Some w" and "py_int (reps ex) = Some r"
    and "pr_value (weight_pr (pr_of recs (exercise ex))) < w"
  shows "weight_pr (pr_of (update_prs py_int py_float cd recs ex) (exercise ex))
           = \<lparr>pr_value = w, pr_date = Some cd\<rparr>
     \<and> (pr_value (reps_pr (pr_of recs (exercise ex))) < r \<longrightarrow>
          reps_pr (pr_of (update_prs py_int py_float cd recs ex) (exercise ex))
            = \<lparr>pr_value = r, pr_date = Some cd\<rparr>)
     \<and> (\<not> pr_value (reps_pr (pr_of recs (exercise ex))) < r \<longrightarrow>
          reps_pr (pr_of (update_prs py_int py_float cd recs ex) (exercise ex))
            = reps_pr (pr_of recs (exercise ex))
          \<and> (recs = record_calls py_int py_float (initialize_prs ws) calls
               \<and> pr_date (reps_pr (pr_of recs (exercise ex))) \<noteq> None \<longrightarrow>
              (\<exists>h \<in> set (history (pr_of recs (exercise ex))).
                  h_reps h = pr_value (reps_pr (pr_of recs (exercise ex)))
                  \<and> pr_date (reps_pr (pr_of recs (exercise ex))) = Some (h_date h)
                  \<and> h_weight h < w)))"
proof (intro conjI impI)
  show "weight_pr (pr_of (update_prs py_int py_float cd recs ex) (exercise ex))
           = \<lparr>pr_value = w, pr_date = Some cd\<rparr>"
    using assms by (simp add: pr_of_update_prs weight_pr_record_pr)
next
  assume "pr_value (reps_pr (pr_of recs (exercise ex))) < r"
  then show "reps_pr (pr_of (update_prs py_int py_float cd recs ex) (exercise ex))
            = \<lparr>pr_value = r, pr_date = Some cd\<rparr>"
    using assms by (simp add: pr_of_update_prs reps_pr_record_pr)
next
  assume "\<not> pr_value (reps_pr (pr_of recs (exercise ex))) < r"
  then show "reps_pr (pr_of (update_prs py_int py_float cd recs ex) (exercise ex))
            = reps_pr (pr_of recs (exercise ex))"
    using assms by (simp add: pr_of_update_prs reps_pr_record_pr)
next
  assume reach: "recs = record_calls py_int py_float (initialize_prs ws) calls
               \<and> pr_date (reps_pr (pr_of recs (exercise ex))) \<noteq> None"
  then have "reps_backed (pr_of recs (exercise ex))"
    by (simp add: reps_backed_from_start)
  with reach obtain h where h: "h \<in> set (history (pr_of recs (exercise ex)))"
      "h_reps h = pr_value (reps_pr (pr_of recs (exercise ex)))"
      "pr_date (reps_pr (pr_of recs (exercise ex))) = Some (h_date h)"
      "h_weight h \<le> pr_value (weight_pr (pr_of recs (exercise ex)))"
    by (auto simp: reps_backed_def)
  from h(4) assms(3) have "h_weight h < w" by simp
  with h show "\<exists>h \<in> set (history (pr_of recs (exercise ex))).
                  h_reps h = pr_value (reps_pr (pr_of recs (exercise ex)))
                  \<and> pr_date (reps_pr (pr_of recs (exercise ex))) = Some (h_date h)
                  \<and> h_weight h < w"
    by blast
qed

theorem weight_then_reps_same_call_witness:
  "weight_pr (pr_of (update_prs decimal_int decimal_float (DateStr ''2024-01-08'')
       (record_calls decimal_int decimal_float (initialize_prs [[undated_day]])
          [(DateStr ''2024-01-01'', bench)])
       (bench\<lparr>reps := ''3'', weight := ''120''\<rparr>)) ''Bench Press'')
     = \<lparr>pr_value = 120, pr_date = Some (DateStr ''2024-01-08'')\<rparr>
   \<and> reps_pr (pr_of (update_prs decimal_int decimal_float (DateStr ''2024-01-08'')
       (record_calls decimal_int decimal_float (initialize_prs [[undated_day]])
          [(DateStr ''2024-01-01'', bench)])
       (bench\<lparr>reps := ''3'', weight := ''120''\<rparr>)) ''Bench Press'')
     = \<lparr>pr_value = 5, pr_date = Some (DateStr ''2024-01-01'')\<rparr>
   \<and> (\<exists>h \<in> set (history (pr_of (record_calls decimal_int decimal_float
                 (initialize_prs [[undated_day]]) [(DateStr ''2024-01-01'', bench)])
                 ''Bench Press'')).
          h_reps h = 5 \<and> h_weight h < 120)
   \<and> reps_pr (pr_of (update_prs decimal_int decimal_float (DateStr ''2024-01-08'')
       (record_calls decimal_int decimal_float (initialize_prs [[undated_day]])
          [(DateStr ''2024-01-01'', bench)])
       (bench\<lparr>reps := ''8'', weight := ''120''\<rparr>)) ''Bench Press'')
     = \<lparr>pr_value = 8, pr_date = Some (DateStr ''2024-01-08'')\<rparr>"
proof -
  let ?recs = "record_calls decimal_int decimal_float (initialize_prs [[undated_day]])
      [(DateStr ''2024-01-01'', bench)]"
  let ?low = "bench\<lparr>reps := ''3'', weight := ''120''\<rparr>"
  let ?high = "bench\<lparr>reps := ''8'', weight := ''120''\<rparr>"
  have low: "decimal_float (weight ?low) = Some 120" "decimal_int (reps ?low) = Some 3"
    "exercise ?low = ''Bench Press''"
    by (simp_all add: bench_def decimal_int_samples decimal_float_samples)
  have high: "decimal_float (weight ?high) = Some 120" "decimal_int (reps ?high) = Some 8"
    "exercise ?high = ''Bench Press''"
    by (simp_all add: bench_def decimal_int_samples decimal_float_samples)
  have best: "pr_value (weight_pr (pr_of ?recs (exercise ?low))) < 120"
    "pr_value (weight_pr (pr_of ?recs (exercise ?high))) < 120"
    by (simp_all add: low high after_bench)
  note lo = weight_then_reps_same_call [where py_float = decimal_float and py_int = decimal_int
      and ex = "?low" and w = 120 and r = 3 and recs = "?recs"
      and cd = "DateStr ''2024-01-08''" and ws = "[[undated_day]]"
      and calls = "[(DateStr ''2024-01-01'', bench)]",
      OF low(1) low(2) best(1)]
  note hi = weight_then_reps_same_call [where py_float = decimal_float and py_int = decimal_int
      and ex = "?high" and w = 120 and r = 8 and recs = "?recs"
      and cd = "DateStr ''2024-01-08''" and ws = "[[undated_day]]"
      and calls = "[(DateStr ''2024-01-01'', bench)]",
      OF high(1) high(2) best(2)]
  from lo hi
  show ?thesis
    by (simp add: low high after_bench)
qed

section \<open>Plan structure manager: verification\<close>

text \<open>
  The two operations where they succeed, on a week of two days: the new day gets the
  next label and the date of today plus two days; removing the first day renumbers the
  one that is left and moves the current day back into range.
\<close>

lemma add_day_sample:
  "add_day 738977 (\<lambda>d. if d = 738979 then ''2024-04-03'' else ''?'')
     \<lparr>workouts = [[empty_day, empty_day]], current_week = 1, current_day = 0\<rparr>
   = (None,
      \<lparr>workouts = [[empty_day, empty_day\<lparr>day := ''Day 2''\<rparr>,
                     \<lparr>day = ''Day 3'', exercises = [], date = Some ''2024-04-03''\<rparr>]],
       current_week = 1, current_day = 2\<rparr>)"
  by (simp add: add_day_def norm_index_def slice_to_def renumber_all_days_def empty_day_def
      str_of_nat.simps Let_def)

lemma remove_day_sample:
  "remove_day ''Day 1''
     \<lparr>workouts = [[empty_day, empty_day\<lparr>day := ''Day 2''\<rparr>]], current_week = 1,
      current_day = 1\<rparr>
   = (None,
      \<lparr>workouts = [[empty_day]], current_week = 1, current_day = 0\<rparr>)"
  by (simp add: remove_day_def norm_index_def renumber_all_days_def empty_day_def
      str_of_nat.simps Let_def)

lemma restructure_nested: "restructure_workouts (Nested ws) = ws"
  by (simp add: restructure_workouts_def)

text \<open>
  Claim C7. \<open>add_day\<close> on a current week of 7 days ends with the capacity warning
  and \<open>remove_day\<close> on a current week of 1 day ends with the minimum-days warning;
  in both cases the state returned is the state given: the week and the rest of the
  plan are unchanged.
\<close>

theorem day_limits:
  "(norm_index (workouts s) (current_week s - 1) = Some k \<and> length (workouts s ! k) = 7
      \<longrightarrow> add_day today strftime s = (Some CapacityError, s))
   \<and> (norm_index (workouts s) (current_week s - 1) = Some k \<and> length (workouts s ! k) = 1
      \<longrightarrow> remove_day picked s = (Some MinimumDaysError, s))"
  by (simp add: add_day_def remove_day_def)

theorem day_limits_witness:
  "add_day 739000 (\<lambda>d. ''2024-05-01'')
     \<lparr>workouts = [replicate 7 empty_day], current_week = 1, current_day = 0\<rparr>
     = (Some CapacityError,
        \<lparr>workouts = [replicate 7 empty_day], current_week = 1, current_day = 0\<rparr>)
   \<and> remove_day ''Day 1''
     \<lparr>workouts = [replicate 7 empty_day, [empty_day]], current_week = 2, current_day = 0\<rparr>
     = (Some MinimumDaysError,
        \<lparr>workouts = [replicate 7 empty_day, [empty_day]], current_week = 2, current_day = 0\<rparr>)"
  using day_limits [of "\<lparr>workouts = [replicate 7 empty_day], current_week = 1, current_day = 0\<rparr>"
      0 739000 "\<lambda>d. ''2024-05-01''" "''Day 1''"]
    day_limits [of "\<lparr>workouts = [replicate 7 empty_day, [empty_day]], current_week = 2,
      current_day = 0\<rparr>" 1 739000 "\<lambda>d. ''2024-05-01''" "''Day 1''"]
  by (simp add: norm_index_def)

lemma twelve_elements:
  assumes "length xs = 12"
  obtains a b c d e f g h i j k l where "xs = [a, b, c, d, e, f, g, h, i, j, k, l]"
  using assms by (auto simp: numeral_eq_Suc length_Suc_conv)

text \<open>
  Claim C6, as amended. A flat list of 12 days is restructured into three weeks: the
  first five days, the next five days and the last two days (sizes 5, 5 and 2).
\<close>

theorem restructure_twelve:
  assumes "length days = 12"
  shows "restructure_workouts (Flat days) = [take 5 days, take 5 (drop 5 days), drop 10 days]
     \<and> map length (restructure_workouts (Flat days)) = [5, 5, 2]"
proof -
  from assms obtain a b c d e f g h i j k l where "days = [a, b, c, d, e, f, g, h, i, j, k, l]"
    by (rule twelve_elements)
  then show ?thesis
    by (simp add: restructure_workouts_def)
qed

theorem restructure_twelve_witness:
  "restructure_workouts (Flat [1, 2, 3, 4, 5, 6, 7, 8, 9, 10, 11, 12 :: nat])
     = [[1, 2, 3, 4, 5], [6, 7, 8, 9, 10], [11, 12]]"
  using restructure_twelve [of "[1, 2, 3, 4, 5, 6, 7, 8, 9, 10, 11, 12 :: nat]"]
  by simp

text \<open>
  The claim as stated asks for four weeks, of sizes 5, 5, 5 and 2; twelve days give
  neither.
\<close>

theorem restructure_twelve_counterexample:
  "length (restructure_workouts (Flat [1, 2, 3, 4, 5, 6, 7, 8, 9, 10, 11, 12 :: nat])) \<noteq> 4
   \<and> map length (restructure_workouts (Flat [1, 2, 3, 4, 5, 6, 7, 8, 9, 10, 11, 12 :: nat]))
        \<noteq> [5, 5, 5, 2]"
  by (simp add: restructure_workouts_def)

section \<open>PR recomputation: verification\<close>

lemma stored_dates_Cons:
  "stored_dates (d # ds) = (case date d of None \<Rightarrow> stored_dates ds | Some t \<Rightarrow> t # stored_dates ds)"
  by (simp add: stored_dates_def split: option.splits)

lemma stored_dates_Nil: "stored_dates [] = []"
  by (simp add: stored_dates_def)

lemma date_in_force_Nil: "date_in_force cd [] = cd"
  by (simp add: date_in_force_def stored_dates_Nil)

lemma date_in_force_Cons:
  "date_in_force cd (d # ds) =
     date_in_force (case date d of None \<Rightarrow> cd | Some t \<Rightarrow> DateStr t) ds"
  by (simp add: date_in_force_def stored_dates_Cons split: option.splits)

lemma replay_calls_Nil: "replay_calls cd [] = []"
  by (simp add: replay_calls_def)

lemma replay_calls_Cons:
  "replay_calls cd (d # ds) =
     map (\<lambda>ex. (case date d of None \<Rightarrow> cd | Some t \<Rightarrow> DateStr t, ex)) (exercises d)
     @ replay_calls (case date d of None \<Rightarrow> cd | Some t \<Rightarrow> DateStr t) ds"
proof -
  have idx: "[0..<length (d # ds)] = 0 # map Suc [0..<length ds]"
    by (simp add: upt_conv_Cons map_Suc_upt del: upt_Suc)
  show ?thesis
    unfolding replay_calls_def idx
    by (simp add: on_date_def date_in_force_Cons date_in_force_Nil comp_def)
qed

lemma foldl_replay_week:
  "foldl (replay_week py_int py_float) st ws = foldl (replay_day py_int py_float) st (concat ws)"
  by (induction ws arbitrary: st) (simp_all add: replay_week_def)

lemma record_calls_append:
  "record_calls py_int py_float recs (xs @ ys)
     = record_calls py_int py_float (record_calls py_int py_float recs xs) ys"
  by (simp add: record_calls_def)

lemma record_calls_same_date:
  "record_calls py_int py_float recs (map (\<lambda>ex. (cd, ex)) es)
     = foldl (update_prs py_int py_float cd) recs es"
  by (induction es arbitrary: recs) (simp_all add: record_calls_def)

lemma replay_day_pair:
  "replay_day py_int py_float (recs, cd) d =
     (foldl (update_prs py_int py_float (case date d of None \<Rightarrow> cd | Some t \<Rightarrow> DateStr t))
        recs (exercises d),
      case date d of None \<Rightarrow> cd | Some t \<Rightarrow> DateStr t)"
  by (simp add: replay_day_def Let_def split: option.splits)

lemma replay_days:
  "foldl (replay_day py_int py_float) (recs, cd) ds
     = (record_calls py_int py_float recs (replay_calls cd ds), date_in_force cd ds)"
proof (induction ds arbitrary: recs cd)
  case Nil
  then show ?case by (simp add: replay_calls_Nil date_in_force_Nil record_calls_def)
next
  case (Cons d ds)
  show ?case
    by (simp add: replay_day_pair Cons.IH replay_calls_Cons date_in_force_Cons
        record_calls_append record_calls_same_date)
qed

lemma recalculate_prs_eq:
  "recalculate_prs py_int py_float s =
     s\<lparr>prs := record_calls py_int py_float (initialize_prs (workouts s))
                (replay_calls (current_date s) (concat (workouts s))),
        current_date := date_in_force (current_date s) (concat (workouts s))\<rparr>"
  by (simp add: recalculate_prs_def foldl_replay_week replay_days)

lemma stored_dates_snoc:
  "stored_dates (ds @ [d]) = stored_dates ds @ (case date d of None \<Rightarrow> [] | Some t \<Rightarrow> [t])"
  by (induction ds) (simp_all add: stored_dates_Cons stored_dates_Nil split: option.splits)

lemma date_in_force_snoc:
  "date_in_force cd (ds @ [d]) =
     (case date d of None \<Rightarrow> date_in_force cd ds | Some t \<Rightarrow> DateStr t)"
  by (simp add: date_in_force_def stored_dates_snoc split: option.splits)

lemma on_date_unfold:
  assumes "i < length ds"
  shows "on_date cd ds i =
     (case date (ds ! i) of
        Some t \<Rightarrow> DateStr t
      | None \<Rightarrow> (if i = 0 then cd else on_date cd ds (i - 1)))"
proof -
  have "take (Suc i) ds = take i ds @ [ds ! i]"
    using assms by (simp add: take_Suc_conv_app_nth)
  then have a: "on_date cd ds i =
      (case date (ds ! i) of None \<Rightarrow> date_in_force cd (take i ds) | Some t \<Rightarrow> DateStr t)"
    by (simp add: on_date_def date_in_force_snoc)
  have b: "date_in_force cd (take i ds) = (if i = 0 then cd else on_date cd ds (i - 1))"
    by (cases i) (simp_all add: on_date_def date_in_force_Nil)
  show ?thesis
    by (simp only: a b)
qed


lemma date_in_force_undated:
  "\<forall>d \<in> set ds. date d = None \<Longrightarrow> date_in_force cd ds = cd"
  by (induction ds) (simp_all add: date_in_force_Nil date_in_force_Cons)


lemma run_undated_first:
  "recalculate_prs decimal_int decimal_float
     \<lparr>workouts = [[undated_day], [dated_day]], current_week = cw, current_day = cday,
      current_date = cd, prs = p\<rparr>
   = \<lparr>workouts = [[undated_day], [dated_day]], current_week = cw, current_day = cday,
      current_date = DateStr ''2024-01-08'',
      prs = [(''Bench Press'',
              \<lparr>weight_pr = \<lparr>pr_value = 120, pr_date = Some (DateStr ''2024-01-08'')\<rparr>,
               reps_pr = \<lparr>pr_value = 8, pr_date = Some (DateStr ''2024-01-08'')\<rparr>,
               history = [\<lparr>h_date = cd, h_weight = 100, h_reps = 5\<rparr>,
                          \<lparr>h_date = DateStr ''2024-01-08'', h_weight = 120, h_reps = 8\<rparr>]\<rparr>)]\<rparr>"
  by (simp add: recalculate_prs_def replay_week_def replay_day_def initialize_prs_def
      init_week_def init_day_def init_exercise_def update_prs_def pr_of_def record_pr_def
      apply_weight_def apply_reps_def append_history_def zero_pr_def undated_day_def
      dated_day_def bench_def decimal_int_samples decimal_float_samples Let_def)

lemma prs_undated_first:
  "prs (recalculate_prs decimal_int decimal_float undated_first)
   = [(''Bench Press'',
       \<lparr>weight_pr = \<lparr>pr_value = 120, pr_date = Some (DateStr ''2024-01-08'')\<rparr>,
        reps_pr = \<lparr>pr_value = 8, pr_date = Some (DateStr ''2024-01-08'')\<rparr>,
        history = [\<lparr>h_date = DateObj 738977, h_weight = 100, h_reps = 5\<rparr>,
                   \<lparr>h_date = DateStr ''2024-01-08'', h_weight = 120, h_reps = 8\<rparr>]\<rparr>)]"
  by (simp add: undated_first_def run_undated_first)

lemma spec_undated_first:
  "recompute_spec decimal_int decimal_float (workouts undated_first)
   = [(''Bench Press'',
       \<lparr>weight_pr = \<lparr>pr_value = 120, pr_date = Some (DateStr ''2024-01-08'')\<rparr>,
        reps_pr = \<lparr>pr_value = 8, pr_date = Some (DateStr ''2024-01-08'')\<rparr>,
        history = [\<lparr>h_date = DateStr ''2000-01-01'', h_weight = 100, h_reps = 5\<rparr>,
                   \<lparr>h_date = DateStr ''2024-01-08'', h_weight = 120, h_reps = 8\<rparr>]\<rparr>)]"
  by (simp add: undated_first_def recompute_spec_def record_calls_def
      update_prs_def pr_of_def record_pr_def apply_weight_def apply_reps_def append_history_def
      zero_pr_def undated_day_def dated_day_def bench_def decimal_int_samples
      decimal_float_samples)

text \<open>
  Claim C4, as amended. \<open>recalculate_prs\<close> resets the PR dictionary to one zero record
  for every exercise name of the plan and then records every exercise of every week
  and day in plan order. The date of a call is the stored date of its day; for a day
  without a stored date it is the date in force at that point: the date used for the
  day before, and for a first day the current date of the planner before the call.
\<close>

theorem recalculate_prs_replay:
  "prs (recalculate_prs py_int py_float s)
     = record_calls py_int py_float (initialize_prs (workouts s))
         (replay_calls (current_date s) (concat (workouts s)))
   \<and> map_of (initialize_prs (workouts s)) n
       = (if n \<in> plan_names (workouts s) then Some zero_pr else None)
   \<and> (i < length (concat (workouts s)) \<longrightarrow>
        on_date (current_date s) (concat (workouts s)) i =
          (case date (concat (workouts s) ! i) of
             Some t \<Rightarrow> DateStr t
           | None \<Rightarrow> (if i = 0 then current_date s
                       else on_date (current_date s) (concat (workouts s)) (i - 1))))"
proof (intro conjI impI)
  show "prs (recalculate_prs py_int py_float s)
     = record_calls py_int py_float (initialize_prs (workouts s))
         (replay_calls (current_date s) (concat (workouts s)))"
    by (simp add: recalculate_prs_eq)
next
  show "map_of (initialize_prs (workouts s)) n
       = (if n \<in> plan_names (workouts s) then Some zero_pr else None)"
    by (rule map_of_initialize_prs)
next
  assume "i < length (concat (workouts s))"
  then show "on_date (current_date s) (concat (workouts s)) i =
          (case date (concat (workouts s) ! i) of
             Some t \<Rightarrow> DateStr t
           | None \<Rightarrow> (if i = 0 then current_date s
                       else on_date (current_date s) (concat (workouts s)) (i - 1)))"
    by (rule on_date_unfold)
qed

theorem recalculate_prs_replay_witness:
  "prs (recalculate_prs decimal_int decimal_float undated_first)
     = record_calls decimal_int decimal_float [(''Bench Press'', zero_pr)]
         [(DateObj 738977, bench),
          (DateStr ''2024-01-08'', bench\<lparr>reps := ''8'', weight := ''120''\<rparr>)]
   \<and> on_date (DateObj 738977) [undated_day, dated_day] 0 = DateObj 738977"
  using recalculate_prs_replay [of decimal_int decimal_float undated_first "''Bench Press''" 0]
  by (simp add: undated_first_def undated_day_def dated_day_def replay_calls_Cons
      replay_calls_Nil initialize_prs_def init_week_def init_day_def init_exercise_def bench_def)

text \<open>
  The claim as stated records a day without a stored date on the epoch date
  2000-01-01. On the plan whose first day has no date the code records that day on the
  planner's current date, so the two dictionaries differ at the exercise of that day.
\<close>

theorem recalculate_prs_epoch_counterexample:
  "map_of (prs (recalculate_prs decimal_int decimal_float undated_first)) ''Bench Press''
     \<noteq> map_of (recompute_spec decimal_int decimal_float (workouts undated_first)) ''Bench Press''"
  by (simp add: prs_undated_first spec_undated_first)
















section \<open>Fatigue and recovery engine: verification\<close>

lemma starts_with_iff: "starts_with key s \<longleftrightarrow> (\<exists>post. s = key @ post)"
  by (induction key s rule: starts_with.induct) auto

lemma contains_iff: "contains key s \<longleftrightarrow> (\<exists>pre post. s = pre @ key @ post)"
proof (induction s)
  case Nil
  then show ?case by simp
next
  case (Cons c cs)
  show ?case
  proof
    assume "contains key (c # cs)"
    then consider "starts_with key (c # cs)" | "contains key cs" by auto
    then show "\<exists>pre post. c # cs = pre @ key @ post"
    proof cases
      case 1
      then obtain post where "c # cs = key @ post" by (auto simp: starts_with_iff)
      then have "c # cs = [] @ key @ post" by simp
      then show ?thesis by blast
    next
      case 2
      with Cons.IH obtain pre post where "cs = pre @ key @ post" by blast
      then have "c # cs = (c # pre) @ key @ post" by simp
      then show ?thesis by blast
    qed
  next
    assume "\<exists>pre post. c # cs = pre @ key @ post"
    then obtain pre post where e: "c # cs = pre @ key @ post" by blast
    show "contains key (c # cs)"
    proof (cases pre)
      case Nil
      with e have "starts_with key (c # cs)" by (auto simp: starts_with_iff)
      then show ?thesis by simp
    next
      case (Cons p pre')
      with e have "cs = pre' @ key @ post" by simp
      with Cons.IH have "contains key cs" by blast
      then show ?thesis by simp
    qed
  qed
qed

lemma map_of_engage_muscle:
  "map_of (engage_muscle load on mr mf) m =
     (if m = fst mf
      then Some \<lparr>fatigue = min fatigue_threshold
                    (fatigue_of mr m + min (load * snd mf * fatigue_multiplier / 100) fatigue_threshold),
                 last_workout = Some on\<rparr>
      else map_of mr m)"
  by (simp add: engage_muscle_def fatigue_of_def update_conv' Let_def split: option.splits)

lemma map_of_engage_all:
  assumes "distinct (map fst eng)"
  shows "map_of (foldl (engage_muscle load on) mr eng) m =
     (case map_of eng m of
        None \<Rightarrow> map_of mr m
      | Some f \<Rightarrow>
          Some \<lparr>fatigue = min fatigue_threshold
                   (fatigue_of mr m + min (load * f * fatigue_multiplier / 100) fatigue_threshold),
                last_workout = Some on\<rparr>)"
  using assms
proof (induction eng arbitrary: mr)
  case Nil
  then show ?case by simp
next
  case (Cons mf eng)
  obtain k f where mf: "mf = (k, f)" by (cases mf)
  have d: "distinct (map fst eng)" and notin: "k \<notin> fst ` set eng"
    using Cons.prems by (auto simp: mf)
  have other: "map_of eng k = None"
    using notin by (simp add: map_of_eq_None_iff)
  have keep: "fatigue_of (engage_muscle load on mr (k, f)) m = fatigue_of mr m" if "m \<noteq> k"
    using that by (simp add: fatigue_of_def map_of_engage_muscle)
  show ?case
  proof (cases "m = k")
    case True
    have o: "map_of eng m = None"
      using True other by simp
    show ?thesis
      by (simp add: mf True [symmetric] Cons.IH [OF d] o map_of_engage_muscle)
  next
    case False
    then show ?thesis
      by (simp add: mf Cons.IH [OF d] keep map_of_engage_muscle split: option.splits)
  qed
qed

lemma engagement_distinct:
  "\<forall>item \<in> set engagement_map. distinct (map fst (snd item))"
  by (simp add: engagement_map_def)

lemma engagement_keys_nonempty:
  "\<forall>item \<in> set engagement_map. fst item \<noteq> []"
  by (simp add: engagement_map_def)

lemma engage_with_load_matched:
  assumes "matched_exercise name = Some item" and "load > 0" and "item \<in> set engagement_map"
  shows "engage_with_load load mr name on = foldl (engage_muscle load on) mr (snd item)"
  using assms engagement_keys_nonempty by (simp add: engage_with_load_def)

lemma engage_with_load_unmatched:
  assumes "matched_exercise name = None \<or> load \<le> 0"
  shows "engage_with_load load mr name on = mr"
  using assms by (auto simp: engage_with_load_def split: option.splits)

lemma engage_muscles_load:
  "calculate_load py_int py_float ex = Inr load \<Longrightarrow>
     engage_muscles py_int py_float mr ex on
       = Inr (engage_with_load load mr (lower (exercise ex)) on)"
  by (simp add: engage_muscles_def)

lemma engage_muscles_raises:
  "calculate_load py_int py_float ex = Inl e \<Longrightarrow>
     engage_muscles py_int py_float mr ex on = Inl e"
  by (simp add: engage_muscles_def)

text \<open>
  Claim C5. Let the key at position \<open>i\<close> of the engagement table be the first one, in
  table order, that occurs in the lowercased exercise name, and let the load of the
  entry be positive. Then \<open>engage_muscles\<close> returns a state in which every muscle of
  that key's engagement has the fatigue \<open>min(FATIGUE_MAX, current + min(load * fraction *
  FATIGUE_MULTIPLIER / 100, FATIGUE_MAX))\<close> and the given date as its last workout, and
  every other muscle is as it was. When no key occurs in the name, or the load is not
  positive, the muscle state is returned unchanged. When the load calculation raises,
  \<open>engage_muscles\<close> raises the same error and has written nothing.
\<close>

theorem engage_muscles_rule:
  "(i < length engagement_map
      \<and> contains (fst (engagement_map ! i)) (lower (exercise ex))
      \<and> (\<forall>j<i. \<not> contains (fst (engagement_map ! j)) (lower (exercise ex)))
      \<and> calculate_load py_int py_float ex = Inr load \<and> load > 0
    \<longrightarrow> (\<exists>mr'. engage_muscles py_int py_float mr ex on = Inr mr'
          \<and> (\<forall>mf \<in> set (snd (engagement_map ! i)).
                map_of mr' (fst mf)
                  = Some \<lparr>fatigue = min fatigue_threshold
                             (fatigue_of mr (fst mf)
                              + min (load * snd mf * fatigue_multiplier / 100) fatigue_threshold),
                          last_workout = Some on\<rparr>)
          \<and> (\<forall>m. m \<notin> fst ` set (snd (engagement_map ! i)) \<longrightarrow> map_of mr' m = map_of mr m)))
   \<and> (calculate_load py_int py_float ex = Inr load
        \<and> ((\<forall>item \<in> set engagement_map. \<not> contains (fst item) (lower (exercise ex)))
             \<or> load \<le> 0)
      \<longrightarrow> engage_muscles py_int py_float mr ex on = Inr mr)
   \<and> (calculate_load py_int py_float ex = Inl e
      \<longrightarrow> engage_muscles py_int py_float mr ex on = Inl e)"
proof (intro conjI impI)
  assume h: "i < length engagement_map
      \<and> contains (fst (engagement_map ! i)) (lower (exercise ex))
      \<and> (\<forall>j<i. \<not> contains (fst (engagement_map ! j)) (lower (exercise ex)))
      \<and> calculate_load py_int py_float ex = Inr load \<and> load > 0"
  let ?item = "engagement_map ! i"
  let ?mr' = "foldl (engage_muscle load on) mr (snd ?item)"
  have mem: "?item \<in> set engagement_map"
    using h by simp
  have found: "matched_exercise (lower (exercise ex)) = Some ?item"
    unfolding matched_exercise_def find_Some_iff using h by blast
  have run: "engage_muscles py_int py_float mr ex on = Inr ?mr'"
    using found h mem by (simp add: engage_muscles_load engage_with_load_matched)
  have dist: "distinct (map fst (snd ?item))"
    using mem engagement_distinct by blast
  have engaged: "\<forall>mf \<in> set (snd ?item).
      map_of ?mr' (fst mf)
        = Some \<lparr>fatigue = min fatigue_threshold
                   (fatigue_of mr (fst mf)
                    + min (load * snd mf * fatigue_multiplier / 100) fatigue_threshold),
                last_workout = Some on\<rparr>"
  proof
    fix mf assume "mf \<in> set (snd ?item)"
    then have "map_of (snd ?item) (fst mf) = Some (snd mf)"
      using dist by simp
    then show "map_of ?mr' (fst mf)
        = Some \<lparr>fatigue = min fatigue_threshold
                   (fatigue_of mr (fst mf)
                    + min (load * snd mf * fatigue_multiplier / 100) fatigue_threshold),
                last_workout = Some on\<rparr>"
      by (simp add: map_of_engage_all [OF dist])
  qed
  have others: "\<forall>m. m \<notin> fst ` set (snd ?item) \<longrightarrow> map_of ?mr' m = map_of mr m"
  proof (intro allI impI)
    fix m assume "m \<notin> fst ` set (snd ?item)"
    then have "map_of (snd ?item) m = None"
      by (simp add: map_of_eq_None_iff)
    then show "map_of ?mr' m = map_of mr m"
      by (simp add: map_of_engage_all [OF dist])
  qed
  from run engaged others
  show "\<exists>mr'. engage_muscles py_int py_float mr ex on = Inr mr'
          \<and> (\<forall>mf \<in> set (snd ?item).
                map_of mr' (fst mf)
                  = Some \<lparr>fatigue = min fatigue_threshold
                             (fatigue_of mr (fst mf)
                              + min (load * snd mf * fatigue_multiplier / 100) fatigue_threshold),
                          last_workout = Some on\<rparr>)
          \<and> (\<forall>m. m \<notin> fst ` set (snd ?item) \<longrightarrow> map_of mr' m = map_of mr m)"
    by blast
next
  assume h: "calculate_load py_int py_float ex = Inr load
        \<and> ((\<forall>item \<in> set engagement_map. \<not> contains (fst item) (lower (exercise ex)))
             \<or> load \<le> 0)"
  then have "matched_exercise (lower (exercise ex)) = None \<or> load \<le> 0"
    by (auto simp: matched_exercise_def find_None_iff)
  then show "engage_muscles py_int py_float mr ex on = Inr mr"
    using h by (simp add: engage_muscles_load engage_with_load_unmatched)
next
  assume "calculate_load py_int py_float ex = Inl e"
  then show "engage_muscles py_int py_float mr ex on = Inl e"
    by (rule engage_muscles_raises)
qed

lemma lower_samples:
  "lower ''Bench Press'' = ''bench press''" "lower ''Yoga'' = ''yoga''"
  "lower ''Barbell Row'' = ''barbell row''"
  by (simp_all add: lower_def lower_char_def)

lemma engage_bench:
  "engage_muscles decimal_int decimal_float initialize_muscle_recovery bench d =
     Inr [(''chest'', \<lparr>fatigue = 1.2, last_workout = Some d\<rparr>),
      (''shoulders'', \<lparr>fatigue = 0.3, last_workout = Some d\<rparr>),
      (''biceps'', \<lparr>fatigue = 0, last_workout = None\<rparr>),
      (''triceps'', \<lparr>fatigue = 0.3, last_workout = Some d\<rparr>),
      (''abs'', \<lparr>fatigue = 0, last_workout = None\<rparr>),
      (''obliques'', \<lparr>fatigue = 0, last_workout = None\<rparr>),
      (''quads'', \<lparr>fatigue = 0, last_workout = None\<rparr>),
      (''calves'', \<lparr>fatigue = 0, last_workout = None\<rparr>),
      (''trapezius'', \<lparr>fatigue = 0, last_workout = None\<rparr>),
      (''back'', \<lparr>fatigue = 0, last_workout = None\<rparr>),
      (''lats'', \<lparr>fatigue = 0, last_workout = None\<rparr>),
      (''glutes'', \<lparr>fatigue = 0, last_workout = None\<rparr>),
      (''hamstrings'', \<lparr>fatigue = 0, last_workout = None\<rparr>),
      (''forearms'', \<lparr>fatigue = 0, last_workout = None\<rparr>),
      (''rear delts'', \<lparr>fatigue = 0, last_workout = None\<rparr>)]"
proof -
  have m: "matched_exercise ''bench press''
    = Some (''bench press'', [(''chest'', 0.8), (''triceps'', 0.2), (''shoulders'', 0.2)])"
    by (simp add: matched_exercise_def engagement_map_def)
  have n: "lower (exercise bench) = ''bench press''"
    by (simp add: bench_def lower_samples)
  show ?thesis
    by (simp add: engage_muscles_def engage_with_load_def n m load_bench Let_def
        engage_muscle_def initialize_muscle_recovery_def recovery_rates_def
        fatigue_threshold_def fatigue_multiplier_def)
qed

theorem engage_muscles_rule_witness:
  "(case engage_muscles decimal_int decimal_float initialize_muscle_recovery bench 738977 of
      Inl e \<Rightarrow> None | Inr mr \<Rightarrow> map_of mr ''chest'')
     = Some \<lparr>fatigue = 1.2, last_workout = Some 738977\<rparr>
   \<and> (case engage_muscles decimal_int decimal_float initialize_muscle_recovery bench 738977 of
      Inl e \<Rightarrow> None | Inr mr \<Rightarrow> map_of mr ''triceps'')
     = Some \<lparr>fatigue = 0.3, last_workout = Some 738977\<rparr>
   \<and> (case engage_muscles decimal_int decimal_float initialize_muscle_recovery bench 738977 of
      Inl e \<Rightarrow> None | Inr mr \<Rightarrow> map_of mr ''quads'')
     = Some \<lparr>fatigue = 0, last_workout = None\<rparr>
   \<and> engage_muscles decimal_int decimal_float initialize_muscle_recovery
       (bench\<lparr>exercise := ''Yoga''\<rparr>) 738977 = Inr initialize_muscle_recovery
   \<and> engage_muscles decimal_int decimal_float initialize_muscle_recovery huge_sets 738977
       = Inl OverflowError"
proof -
  let ?init = initialize_muscle_recovery
  let ?yoga = "bench\<lparr>exercise := ''Yoga''\<rparr>"
  have first: "engagement_map ! 0
    = (''bench press'', [(''chest'', 0.8), (''triceps'', 0.2), (''shoulders'', 0.2)])"
    "0 < length engagement_map" "engagement_map \<noteq> []"
    by (simp_all add: engagement_map_def)
  have name: "lower (exercise bench) = ''bench press''" "lower (exercise ?yoga) = ''yoga''"
    by (simp_all add: bench_def lower_samples)
  have load_yoga: "calculate_load decimal_int decimal_float ?yoga = Inr 1500"
    by (simp add: calculate_load_def float_of_int_def bench_def decimal_int_samples
        decimal_float_samples)
  have load_huge: "calculate_load decimal_int decimal_float huge_sets = Inl OverflowError"
    by (simp add: calculate_load_def float_of_int_def huge_sets_def bench_def decimal_int_huge
        decimal_one)
  have zero: "fatigue_of ?init ''chest'' = 0" "fatigue_of ?init ''triceps'' = 0"
    "map_of ?init ''quads'' = Some \<lparr>fatigue = 0, last_workout = None\<rparr>"
    by (simp_all add: fatigue_of_def initialize_muscle_recovery_def recovery_rates_def)
  have hyp: "0 < length engagement_map
      \<and> contains (fst (engagement_map ! 0)) (lower (exercise bench))
      \<and> (\<forall>j<0. \<not> contains (fst (engagement_map ! j)) (lower (exercise bench)))
      \<and> calculate_load decimal_int decimal_float bench = Inr 1500 \<and> (1500::real) > 0"
    by (simp add: first name load_bench)
  have none: "calculate_load decimal_int decimal_float ?yoga = Inr 1500
      \<and> ((\<forall>item \<in> set engagement_map. \<not> contains (fst item) (lower (exercise ?yoga)))
           \<or> (1500::real) \<le> 0)"
    unfolding name by (simp add: load_yoga engagement_map_def)
  from hyp engage_muscles_rule [of 0 bench decimal_int decimal_float 1500 ?init 738977]
  obtain mr' where run: "engage_muscles decimal_int decimal_float ?init bench 738977 = Inr mr'"
    and engaged: "\<forall>mf \<in> set (snd (engagement_map ! 0)).
         map_of mr' (fst mf)
           = Some \<lparr>fatigue = min fatigue_threshold
                      (fatigue_of ?init (fst mf)
                       + min (1500 * snd mf * fatigue_multiplier / 100) fatigue_threshold),
                   last_workout = Some 738977\<rparr>"
    and others: "\<forall>m. m \<notin> fst ` set (snd (engagement_map ! 0)) \<longrightarrow> map_of mr' m = map_of ?init m"
    by blast
  from none engage_muscles_rule [of 0 ?yoga decimal_int decimal_float 1500 ?init 738977]
  have yoga: "engage_muscles decimal_int decimal_float ?init ?yoga 738977 = Inr ?init"
    by blast
  from load_huge
    engage_muscles_rule [of 0 huge_sets decimal_int decimal_float 0 ?init 738977 OverflowError]
  have huge: "engage_muscles decimal_int decimal_float ?init huge_sets 738977 = Inl OverflowError"
    by blast
  have chest: "map_of mr' ''chest'' = Some \<lparr>fatigue = 1.2, last_workout = Some 738977\<rparr>"
    and triceps: "map_of mr' ''triceps'' = Some \<lparr>fatigue = 0.3, last_workout = Some 738977\<rparr>"
    using engaged
    by (simp_all add: first zero fatigue_threshold_def fatigue_multiplier_def)
  have quads: "map_of mr' ''quads'' = Some \<lparr>fatigue = 0, last_workout = None\<rparr>"
    using others by (simp add: first zero)
  show ?thesis
    using chest triceps quads yoga huge by (simp add: run)
qed

text \<open>
  What holds of the fatigue bounds. From the reset state a sequence of the three
  operations raises nothing but the \<open>OverflowError\<close> of a load calculation, and the
  fatigue of every muscle stays non-negative; it also stays at or below the threshold
  as long as \<open>update_muscle_recovery\<close> is not among them.
  Either decay function, run on the date of a muscle's last workout, leaves that muscle
  as it is.
\<close>

lemma set_update_subset: "set (AList.update k v al) \<subseteq> insert (k, v) (set al)"
  by (induction al) auto

lemma engagement_rated:
  "\<forall>item \<in> set engagement_map. \<forall>mf \<in> set (snd item).
     fst mf \<in> fst ` set recovery_rates \<and> 0 \<le> snd mf"
  by (simp add: engagement_map_def recovery_rates_def)

lemma rates_nonneg: "\<forall>kv \<in> set recovery_rates. 0 \<le> snd kv"
  by (simp add: recovery_rates_def)

lemma tracked_ok_init: "tracked_ok initialize_muscle_recovery"
  by (simp add: tracked_ok_def initialize_muscle_recovery_def recovery_rates_def)

lemma within_threshold_init: "within_threshold initialize_muscle_recovery"
  by (simp add: within_threshold_def initialize_muscle_recovery_def recovery_rates_def
      fatigue_threshold_def)

lemma fatigue_of_nonneg: "tracked_ok mr \<Longrightarrow> 0 \<le> fatigue_of mr m"
  by (auto simp: tracked_ok_def fatigue_of_def split: option.splits dest!: map_of_SomeD)

lemma engage_muscle_new:
  "engage_muscle load on mr mf =
     AList.update (fst mf)
       \<lparr>fatigue = min fatigue_threshold
                    (fatigue_of mr (fst mf)
                     + min (load * snd mf * fatigue_multiplier / 100) fatigue_threshold),
        last_workout = Some on\<rparr> mr"
  by (simp add: engage_muscle_def fatigue_of_def Let_def split: option.splits)

lemma in_updateD:
  "item \<in> set (AList.update k v al) \<Longrightarrow> item = (k, v) \<or> item \<in> set al"
  using set_update_subset [of k v al] by blast

lemma tracked_ok_engage_muscle:
  assumes "tracked_ok mr" and "fst mf \<in> fst ` set recovery_rates" and "0 \<le> load * snd mf"
  shows "tracked_ok (engage_muscle load on mr mf)"
proof -
  let ?new = "min fatigue_threshold
           (fatigue_of mr (fst mf) + min (load * snd mf * fatigue_multiplier / 100) fatigue_threshold)"
  have inc: "0 \<le> min (load * snd mf * fatigue_multiplier / 100) fatigue_threshold"
    using assms(3) by (simp add: fatigue_multiplier_def fatigue_threshold_def)
  have new: "0 \<le> ?new"
    using inc fatigue_of_nonneg [OF assms(1), of "fst mf"]
    by (simp add: fatigue_threshold_def)
  show ?thesis
    unfolding tracked_ok_def engage_muscle_new
  proof
    fix item
    assume "item \<in> set (AList.update (fst mf) \<lparr>fatigue = ?new, last_workout = Some on\<rparr> mr)"
    then consider "item = (fst mf, \<lparr>fatigue = ?new, last_workout = Some on\<rparr>)"
      | "item \<in> set mr"
      by (auto dest: in_updateD)
    then show "fst item \<in> fst ` set recovery_rates \<and> 0 \<le> fatigue (snd item)"
    proof cases
      case 1
      then show ?thesis using assms(2) new by simp
    next
      case 2
      then show ?thesis using assms(1) by (simp add: tracked_ok_def)
    qed
  qed
qed

lemma within_threshold_engage_muscle:
  assumes "within_threshold mr"
  shows "within_threshold (engage_muscle load on mr mf)"
  unfolding within_threshold_def engage_muscle_new
proof
  fix item
  let ?st = "\<lparr>fatigue = min fatigue_threshold
                    (fatigue_of mr (fst mf)
                     + min (load * snd mf * fatigue_multiplier / 100) fatigue_threshold),
             last_workout = Some on\<rparr>"
  assume "item \<in> set (AList.update (fst mf) ?st mr)"
  then consider "item = (fst mf, ?st)" | "item \<in> set mr"
    by (auto dest: in_updateD)
  then show "fatigue (snd item) \<le> fatigue_threshold"
  proof cases
    case 1
    then show ?thesis by simp
  next
    case 2
    then show ?thesis using assms by (simp add: within_threshold_def)
  qed
qed

lemma tracked_ok_engage_fold:
  assumes "tracked_ok mr"
    and "\<forall>mf \<in> set eng. fst mf \<in> fst ` set recovery_rates \<and> 0 \<le> load * snd mf"
  shows "tracked_ok (foldl (engage_muscle load on) mr eng)"
  using assms
  by (induction eng arbitrary: mr) (simp_all add: tracked_ok_engage_muscle)

lemma within_threshold_engage_fold:
  assumes "within_threshold mr"
  shows "within_threshold (foldl (engage_muscle load on) mr eng)"
  using assms
  by (induction eng arbitrary: mr) (simp_all add: within_threshold_engage_muscle)

lemma engage_with_load_cases:
  obtains "engage_with_load load mr name on = mr"
  | item where "item \<in> set engagement_map" and "load > 0"
      and "engage_with_load load mr name on = foldl (engage_muscle load on) mr (snd item)"
proof (cases "matched_exercise name")
  case None
  then have "engage_with_load load mr name on = mr"
    by (simp add: engage_with_load_def)
  then show ?thesis by (rule that(1))
next
  case (Some item)
  then have mem: "item \<in> set engagement_map"
    by (auto simp: matched_exercise_def find_Some_iff)
  show ?thesis
  proof (cases "fst item \<noteq> [] \<and> load > 0")
    case False
    then have "engage_with_load load mr name on = mr"
      using Some by (auto simp: engage_with_load_def)
    then show ?thesis by (rule that(1))
  next
    case True
    then have "engage_with_load load mr name on = foldl (engage_muscle load on) mr (snd item)"
      using Some by (simp add: engage_with_load_def)
    with mem True show ?thesis by (intro that(2)) simp_all
  qed
qed

lemma tracked_ok_engage_with_load:
  assumes "tracked_ok mr"
  shows "tracked_ok (engage_with_load load mr name on)"
proof (cases rule: engage_with_load_cases [of load mr name on])
  case 1
  then show ?thesis using assms by simp
next
  case (2 item)
  have "\<forall>mf \<in> set (snd item). fst mf \<in> fst ` set recovery_rates \<and> 0 \<le> load * snd mf"
    using engagement_rated 2(1,2) by (auto intro: mult_nonneg_nonneg)
  from tracked_ok_engage_fold [OF assms this] show ?thesis
    by (simp add: 2(3))
qed

lemma within_threshold_engage_with_load:
  assumes "within_threshold mr"
  shows "within_threshold (engage_with_load load mr name on)"
proof (cases rule: engage_with_load_cases [of load mr name on])
  case 1
  then show ?thesis using assms by simp
next
  case (2 item)
  from within_threshold_engage_fold [OF assms] show ?thesis
    by (simp add: 2(3))
qed

lemma engage_muscles_ok:
  assumes "tracked_ok mr"
  shows "engage_muscles py_int py_float mr ex on = Inl OverflowError
     \<or> (\<exists>mr'. engage_muscles py_int py_float mr ex on = Inr mr' \<and> tracked_ok mr'
           \<and> (within_threshold mr \<longrightarrow> within_threshold mr'))"
proof (cases "calculate_load py_int py_float ex")
  case (Inl e)
  then have "e = OverflowError"
    by (auto simp: calculate_load_def float_of_int_def split: option.splits if_splits)
  with Inl show ?thesis by (simp add: engage_muscles_raises)
next
  case (Inr load)
  then show ?thesis
    using assms
    by (simp add: engage_muscles_load tracked_ok_engage_with_load
        within_threshold_engage_with_load)
qed

lemma rate_of:
  assumes "m \<in> fst ` set recovery_rates"
  obtains r where "map_of recovery_rates m = Some r" and "0 \<le> r"
proof -
  from assms obtain r where r: "map_of recovery_rates m = Some r"
    by (metis map_of_eq_None_iff not_None_eq)
  then have "(m, r) \<in> set recovery_rates" by (rule map_of_SomeD)
  with rates_nonneg have "0 \<le> r" by fastforce
  with r show ?thesis by (rule that)
qed

lemma current_fatigue_of_ok:
  assumes "m \<in> fst ` set recovery_rates" and "0 \<le> fatigue st"
  obtains st' where "current_fatigue_of today m st = Inr st'"
    and "0 \<le> fatigue st'" and "fatigue st' \<le> fatigue st"
proof (cases "last_workout st")
  case None
  then have "current_fatigue_of today m st = Inr st"
    by (simp add: current_fatigue_of_def)
  then show ?thesis using assms(2) by (rule that) simp
next
  case (Some lw)
  from assms(1) obtain r where r: "map_of recovery_rates m = Some r" "0 \<le> r"
    by (rule rate_of)
  let ?st' = "st\<lparr>fatigue := max 0 (fatigue st - of_int (r * max 0 (today - lw)))\<rparr>"
  have eq: "current_fatigue_of today m st = Inr ?st'"
    by (simp add: current_fatigue_of_def Some r Let_def)
  have "0 \<le> r * max 0 (today - lw)"
    using r(2) by simp
  then have "(0::real) \<le> of_int (r * max 0 (today - lw))"
    by (simp only: of_int_0_le_iff)
  then have "fatigue ?st' \<le> fatigue st"
    using assms(2) by simp
  moreover have "0 \<le> fatigue ?st'" by simp
  ultimately show ?thesis using eq that by blast
qed

lemma recovered_fatigue_of_ok:
  assumes "m \<in> fst ` set recovery_rates"
  obtains st' where "recovered_fatigue_of today m st = Inr st'"
    and "0 \<le> fatigue st \<longrightarrow> 0 \<le> fatigue st'"
proof (cases "last_workout st")
  case None
  then have "recovered_fatigue_of today m st = Inr st"
    by (simp add: recovered_fatigue_of_def)
  then show ?thesis by (rule that) simp
next
  case (Some lw)
  from assms(1) obtain r where r: "map_of recovery_rates m = Some r" "0 \<le> r"
    by (rule rate_of)
  have "recovered_fatigue_of today m st
      = Inr (st\<lparr>fatigue := max (fatigue st - of_int (r * (today - lw))) 0\<rparr>)"
    by (simp add: recovered_fatigue_of_def Some r Let_def)
  then show ?thesis by (rule that) simp
qed

lemma decay_same_day:
  assumes "last_workout st = Some d" and "0 \<le> fatigue st"
    and "m \<in> fst ` set recovery_rates"
  shows "current_fatigue_of d m st = Inr st \<and> recovered_fatigue_of d m st = Inr st"
proof -
  from assms(3) obtain r where r: "map_of recovery_rates m = Some r" "0 \<le> r"
    by (rule rate_of)
  show ?thesis
    using assms(1,2) r(1)
    by (simp add: current_fatigue_of_def recovered_fatigue_of_def Let_def max_def)
qed

lemma for_each_muscle_all:
  assumes "\<forall>item \<in> set mr. \<exists>st. f (fst item) (snd item) = Inr st \<and> P (fst item, st)"
  shows "\<exists>mr'. for_each_muscle f mr = Inr mr' \<and> (\<forall>item \<in> set mr'. P item)"
  using assms
proof (induction mr)
  case Nil
  then show ?case by simp
next
  case (Cons item mr)
  from Cons.prems obtain st where st: "f (fst item) (snd item) = Inr st" "P (fst item, st)"
    by auto
  from Cons.prems have "\<forall>item \<in> set mr. \<exists>st. f (fst item) (snd item) = Inr st \<and> P (fst item, st)"
    by simp
  from Cons.IH [OF this] obtain mr' where mr': "for_each_muscle f mr = Inr mr'"
      "\<forall>item \<in> set mr'. P item"
    by blast
  have "for_each_muscle f (item # mr) = Inr ((fst item, st) # mr')"
    by (simp add: st(1) mr'(1))
  then show ?case using st(2) mr'(2) by simp
qed

lemma calculate_current_fatigue_ok:
  assumes "tracked_ok mr"
  shows "\<exists>mr'. calculate_current_fatigue today mr = Inr mr' \<and> tracked_ok mr'
           \<and> (within_threshold mr \<longrightarrow> within_threshold mr')"
proof -
  let ?P = "\<lambda>item. fst item \<in> fst ` set recovery_rates \<and> 0 \<le> fatigue (snd item)
              \<and> (within_threshold mr \<longrightarrow> fatigue (snd item) \<le> fatigue_threshold)"
  have "\<forall>item \<in> set mr. \<exists>st. current_fatigue_of today (fst item) (snd item) = Inr st
          \<and> ?P (fst item, st)"
  proof
    fix item assume mem: "item \<in> set mr"
    with assms have k: "fst item \<in> fst ` set recovery_rates" and f: "0 \<le> fatigue (snd item)"
      by (simp_all add: tracked_ok_def)
    from k f obtain st' where st': "current_fatigue_of today (fst item) (snd item) = Inr st'"
        "0 \<le> fatigue st'" "fatigue st' \<le> fatigue (snd item)"
      by (rule current_fatigue_of_ok)
    have "within_threshold mr \<longrightarrow> fatigue st' \<le> fatigue_threshold"
      using mem st'(3) by (auto simp: within_threshold_def)
    with st' k show "\<exists>st. current_fatigue_of today (fst item) (snd item) = Inr st
          \<and> ?P (fst item, st)"
      by simp
  qed
  from for_each_muscle_all [of mr "current_fatigue_of today" ?P, OF this]
  show ?thesis
    by (auto simp: calculate_current_fatigue_def tracked_ok_def within_threshold_def)
qed

lemma update_muscle_recovery_ok:
  assumes "tracked_ok mr"
  shows "\<exists>mr'. update_muscle_recovery today mr = Inr mr' \<and> tracked_ok mr'"
proof -
  let ?P = "\<lambda>item. fst item \<in> fst ` set recovery_rates \<and> 0 \<le> fatigue (snd item)"
  have "\<forall>item \<in> set mr. \<exists>st. recovered_fatigue_of today (fst item) (snd item) = Inr st
          \<and> ?P (fst item, st)"
  proof
    fix item assume mem: "item \<in> set mr"
    with assms have k: "fst item \<in> fst ` set recovery_rates" and f: "0 \<le> fatigue (snd item)"
      by (simp_all add: tracked_ok_def)
    from k obtain st' where st': "recovered_fatigue_of today (fst item) (snd item) = Inr st'"
        "0 \<le> fatigue (snd item) \<longrightarrow> 0 \<le> fatigue st'"
      by (rule recovered_fatigue_of_ok)
    with k f show "\<exists>st. recovered_fatigue_of today (fst item) (snd item) = Inr st
          \<and> ?P (fst item, st)"
      by simp
  qed
  from for_each_muscle_all [of mr "recovered_fatigue_of today" ?P, OF this]
  show ?thesis
    by (auto simp: update_muscle_recovery_def tracked_ok_def)
qed

lemma engine_step_ok:
  assumes "tracked_ok mr"
  shows "engine_step py_int py_float mr op = Inl OverflowError
     \<or> (\<exists>mr'. engine_step py_int py_float mr op = Inr mr' \<and> tracked_ok mr'
           \<and> (within_threshold mr \<and> \<not> is_recover op \<longrightarrow> within_threshold mr'))"
proof (cases op)
  case (Engage ex d)
  then show ?thesis
    using engage_muscles_ok [OF assms, of py_int py_float ex d] by (auto simp: engine_step_def)
next
  case (CurrentFatigue today)
  then show ?thesis
    using calculate_current_fatigue_ok [OF assms, of today] by (auto simp: engine_step_def)
next
  case (Recover today)
  then show ?thesis
    using update_muscle_recovery_ok [OF assms, of today] by (auto simp: engine_step_def)
qed

lemma engine_run_ok:
  assumes "tracked_ok mr"
  shows "engine_run py_int py_float mr ops = Inl OverflowError
     \<or> (\<exists>mr'. engine_run py_int py_float mr ops = Inr mr' \<and> tracked_ok mr'
           \<and> (within_threshold mr \<and> (\<forall>op \<in> set ops. \<not> is_recover op)
                \<longrightarrow> within_threshold mr'))"
  using assms
proof (induction ops arbitrary: mr)
  case Nil
  then show ?case by simp
next
  case (Cons op ops)
  from engine_step_ok [OF Cons.prems, of py_int py_float op]
  consider "engine_step py_int py_float mr op = Inl OverflowError"
    | mr1 where "engine_step py_int py_float mr op = Inr mr1" "tracked_ok mr1"
        "within_threshold mr \<and> \<not> is_recover op \<longrightarrow> within_threshold mr1"
    by blast
  then show ?case
  proof cases
    case 1
    then show ?thesis by simp
  next
    case (2 mr1)
    from Cons.IH [OF 2(2)]
    consider "engine_run py_int py_float mr1 ops = Inl OverflowError"
      | mr' where "engine_run py_int py_float mr1 ops = Inr mr'" "tracked_ok mr'"
          "within_threshold mr1 \<and> (\<forall>op \<in> set ops. \<not> is_recover op) \<longrightarrow> within_threshold mr'"
      by blast
    then show ?thesis
    proof cases
      case 1
      then show ?thesis by (simp add: 2(1))
    next
      case (2 mr')
      have "engine_run py_int py_float mr (op # ops) = Inr mr'"
        by (simp add: \<open>engine_step py_int py_float mr op = Inr mr1\<close> 2(1))
      then show ?thesis
        using \<open>within_threshold mr \<and> \<not> is_recover op \<longrightarrow> within_threshold mr1\<close> 2(2,3)
        by auto
    qed
  qed
qed

lemma engine_run_from_reset:
  "engine_run py_int py_float initialize_muscle_recovery ops = Inl OverflowError
   \<or> (\<exists>mr. engine_run py_int py_float initialize_muscle_recovery ops = Inr mr
       \<and> (\<forall>item \<in> set mr. 0 \<le> fatigue (snd item))
       \<and> ((\<forall>op \<in> set ops. \<not> is_recover op)
            \<longrightarrow> (\<forall>item \<in> set mr. fatigue (snd item) \<le> fatigue_threshold)))"
  using engine_run_ok [OF tracked_ok_init, of py_int py_float ops] within_threshold_init
  by (auto simp: tracked_ok_def within_threshold_def)

text \<open>
  Claim C1 at a failing input. From the reset state, Bench Press 3 x 5 x 100 is engaged
  on 2024-04-08 and \<open>update_muscle_recovery\<close> then runs with the current date
  2024-04-01: the days elapsed are -7, the recovery amount is -105, and the fatigue of
  the chest rises from 1.2 to 106.2, above the threshold 100.
  \<open>calculate_current_fatigue\<close>, which clamps the days at 0, leaves it at 1.2.
\<close>

theorem recover_before_last_workout:
  "(case engine_run decimal_int decimal_float initialize_muscle_recovery
           [Engage bench 738984, Recover 738977] of
      Inl e \<Rightarrow> None | Inr mr \<Rightarrow> map_of mr ''chest'')
     = Some \<lparr>fatigue = 106.2, last_workout = Some 738984\<rparr>
   \<and> fatigue_threshold < 106.2
   \<and> (case engine_run decimal_int decimal_float initialize_muscle_recovery
           [Engage bench 738984, CurrentFatigue 738977] of
      Inl e \<Rightarrow> None | Inr mr \<Rightarrow> map_of mr ''chest'')
     = Some \<lparr>fatigue = 1.2, last_workout = Some 738984\<rparr>"
  by (simp add: engine_step_def engage_bench update_muscle_recovery_def
      calculate_current_fatigue_def recovered_fatigue_of_def current_fatigue_of_def
      recovery_rates_def fatigue_threshold_def Let_def)

end
